theory Spec2Isabelle
  imports Complex_Main
begin

section \<open>StableEvaluationAtAPoint: the header stableevaluationatapoint.h\<close>

text \<open>
  The C++ type \<^verbatim>\<open>double\<close> is modelled by \<^typ>\<open>real\<close>: all statements below are
  statements of exact real arithmetic, rounding is not modelled.
  An \<^verbatim>\<open>Eigen::Vector2d\<close> is a pair of reals; the Eigen operations the header uses
  are written out componentwise.
\<close>

type_synonym Vector2d = "real \<times> real"

definition vadd :: "Vector2d \<Rightarrow> Vector2d \<Rightarrow> Vector2d" where
  "vadd a b = (fst a + fst b, snd a + snd b)"

definition vsub :: "Vector2d \<Rightarrow> Vector2d \<Rightarrow> Vector2d" where
  "vsub a b = (fst a - fst b, snd a - snd b)"

definition smult :: "real \<Rightarrow> Vector2d \<Rightarrow> Vector2d" where
  "smult s a = (s * fst a, s * snd a)"

definition sdiv :: "Vector2d \<Rightarrow> real \<Rightarrow> Vector2d" where
  "sdiv a s = (fst a / s, snd a / s)"

definition dot :: "Vector2d \<Rightarrow> Vector2d \<Rightarrow> real" where
  "dot a b = fst a * fst b + snd a * snd b"

definition squaredNorm :: "Vector2d \<Rightarrow> real" where
  "squaredNorm a = fst a * fst a + snd a * snd a"

definition vnorm :: "Vector2d \<Rightarrow> real" where
  "vnorm a = sqrt (squaredNorm a)"

text \<open>
  \<^verbatim>\<open>LF_ASSERT_MSG\<close> and \<^verbatim>\<open>LF_VERIFY_MSG\<close> stop the program with a message; a call
  that hits one returns \<open>Inl\<close> of the error.
\<close>

datatype error = AssertFailed string | VerifyFailed string

subsection \<open>FundamentalSolution\<close>

text \<open>
  Modelled from the spec: the bodies of \<^verbatim>\<open>FundamentalSolution::operator()\<close> and
  \<^verbatim>\<open>FundamentalSolution::grad\<close> are in stableevaluationatapoint.cc, which is not part
  of the sources; the header only declares them (lines 38-49). The formulas are those of
  the spec (section 4.1), which are also the reference functions \<^verbatim>\<open>G\<close> and
  \<^verbatim>\<open>gradG\<close> kept as a comment in the header (lines 55-70), including their assertion
  \<^verbatim>\<open>x != y\<close>. The singular point \<open>x\<close> is the member \<^verbatim>\<open>x_\<close>.
\<close>

definition FundamentalSolution_eval :: "Vector2d \<Rightarrow> Vector2d \<Rightarrow> error + real" where
  "FundamentalSolution_eval x y =
     (if x = y then Inl (AssertFailed ''G not defined for these coordinates!'')
      else Inr ((- 1 / (2 * pi)) * ln (vnorm (vsub x y))))"

definition FundamentalSolution_grad :: "Vector2d \<Rightarrow> Vector2d \<Rightarrow> error + Vector2d" where
  "FundamentalSolution_grad x y =
     (if x = y then Inl (AssertFailed ''G not defined for these coordinates!'')
      else Inr (sdiv (vsub x y) (2 * pi * squaredNorm (vsub x y))))"

subsection \<open>The mesh as the header uses it\<close>

text \<open>
  Of the LehrFEM++ mesh the header reads: the entities of a co-dimension in the
  library's order (\<^verbatim>\<open>mesh->Entities(1)\<close>), the geometry pointer of an entity (which
  may be null), the corner matrix and the volume of a geometry, and the boundary flags
  computed by \<^verbatim>\<open>lf::mesh::utils::flagEntitiesOnBoundary\<close>. The library is outside the
  repository, so the flags travel with the mesh as the field \<open>BoundaryFlags\<close>.
\<close>

record geometry =
  Corners :: "Vector2d \<times> Vector2d"
  Volume :: real

record Entity =
  Index :: nat
  Geometry :: "geometry option"

record Mesh =
  Entities :: "nat \<Rightarrow> Entity list"
  BoundaryFlags :: "nat \<Rightarrow> Entity \<Rightarrow> bool"

definition flagEntitiesOnBoundary :: "Mesh \<Rightarrow> nat \<Rightarrow> Entity \<Rightarrow> bool" where
  "flagEntitiesOnBoundary mesh codim = BoundaryFlags mesh codim"

definition midpoint_of :: "geometry \<Rightarrow> Vector2d" where
  "midpoint_of geo = smult 0.5 (vadd (fst (Corners geo)) (snd (Corners geo)))"

subsection \<open>PSL and PDL (the \<^verbatim>\<open>SOLUTION\<close> branch)\<close>

text \<open>
  The bodies of both functions stand under \<^verbatim>\<open>#if SOLUTION\<close>; the file is the master
  solution, and the model is the code of that branch (without it both functions return
  \<^verbatim>\<open>0.0\<close>). The range-for loop over \<^verbatim>\<open>mesh->Entities(1)\<close> is a recursion over the
  list of edges, with the accumulator \<^verbatim>\<open>PSLval\<close>.
\<close>

fun PSL_loop ::
  "(Entity \<Rightarrow> bool) \<Rightarrow> (Vector2d \<Rightarrow> real) \<Rightarrow> Vector2d \<Rightarrow> Entity list \<Rightarrow> real \<Rightarrow> error + real"
where
  "PSL_loop bd_flags_edge v x [] PSLval = Inr PSLval"
| "PSL_loop bd_flags_edge v x (e # es) PSLval =
     (if bd_flags_edge e then
        (case Geometry e of
           None \<Rightarrow> Inl (AssertFailed ''Missing geometry!'')
         | Some geo \<Rightarrow>
             (case FundamentalSolution_eval x (midpoint_of geo) of
                Inl err \<Rightarrow> Inl err
              | Inr g \<Rightarrow>
                  PSL_loop bd_flags_edge v x es
                    (PSLval + v (midpoint_of geo) * g * Volume geo)))
      else PSL_loop bd_flags_edge v x es PSLval)"

definition PSL :: "Mesh \<Rightarrow> (Vector2d \<Rightarrow> real) \<Rightarrow> Vector2d \<Rightarrow> error + real" where
  "PSL mesh v x = PSL_loop (flagEntitiesOnBoundary mesh 1) v x (Entities mesh 1) 0"

text \<open>
  \<^verbatim>\<open>OuterNormalUnitSquare\<close> is declared in the header (line 35) and defined in the
  missing .cc file; \<^verbatim>\<open>PDL\<close> takes it as the parameter \<open>OuterNormalUnitSquare\<close>.
\<close>

fun PDL_loop ::
  "(Vector2d \<Rightarrow> Vector2d) \<Rightarrow> (Entity \<Rightarrow> bool) \<Rightarrow> (Vector2d \<Rightarrow> real) \<Rightarrow> Vector2d \<Rightarrow>
   Entity list \<Rightarrow> real \<Rightarrow> error + real"
where
  "PDL_loop OuterNormalUnitSquare bd_flags_edge v x [] PDLval = Inr PDLval"
| "PDL_loop OuterNormalUnitSquare bd_flags_edge v x (e # es) PDLval =
     (if bd_flags_edge e then
        (case Geometry e of
           None \<Rightarrow> Inl (AssertFailed ''Missing geometry!'')
         | Some geo \<Rightarrow>
             (let n = OuterNormalUnitSquare (midpoint_of geo) in
              case FundamentalSolution_grad x (midpoint_of geo) of
                Inl err \<Rightarrow> Inl err
              | Inr gg \<Rightarrow>
                  PDL_loop OuterNormalUnitSquare bd_flags_edge v x es
                    (PDLval + v (midpoint_of geo) * dot gg n * Volume geo)))
      else PDL_loop OuterNormalUnitSquare bd_flags_edge v x es PDLval)"

definition PDL ::
  "(Vector2d \<Rightarrow> Vector2d) \<Rightarrow> Mesh \<Rightarrow> (Vector2d \<Rightarrow> real) \<Rightarrow> Vector2d \<Rightarrow> error + real"
where
  "PDL OuterNormalUnitSquare mesh v x =
     PDL_loop OuterNormalUnitSquare (flagEntitiesOnBoundary mesh 1) v x (Entities mesh 1) 0"

subsection \<open>The quantities the midpoint rule sums\<close>


definition boundary_edges :: "Mesh \<Rightarrow> Entity list" where
  "boundary_edges mesh = filter (flagEntitiesOnBoundary mesh 1) (Entities mesh 1)"

definition edge_midpoint :: "Entity \<Rightarrow> Vector2d" where
  "edge_midpoint e = midpoint_of (the (Geometry e))"

definition corner0 :: "Entity \<Rightarrow> Vector2d" where
  "corner0 e = fst (Corners (the (Geometry e)))"

definition corner1 :: "Entity \<Rightarrow> Vector2d" where
  "corner1 e = snd (Corners (the (Geometry e)))"

definition edge_length :: "Entity \<Rightarrow> real" where
  "edge_length e = Volume (the (Geometry e))"

definition G_formula :: "Vector2d \<Rightarrow> Vector2d \<Rightarrow> real" where
  "G_formula x y = - (1 / (2 * pi)) * ln (vnorm (vsub x y))"

definition gradG_formula :: "Vector2d \<Rightarrow> Vector2d \<Rightarrow> Vector2d" where
  "gradG_formula x y = sdiv (vsub x y) (2 * pi * (vnorm (vsub x y))\<^sup>2)"

text \<open>
  A triangulation of the unit square by its diagonal: four boundary edges and the
  diagonal, which is not flagged.
\<close>

definition square_edge :: "nat \<Rightarrow> Vector2d \<Rightarrow> Vector2d \<Rightarrow> real \<Rightarrow> Entity" where
  "square_edge i a b len = \<lparr>Index = i, Geometry = Some \<lparr>Corners = (a, b), Volume = len\<rparr>\<rparr>"

definition two_triangle_mesh :: Mesh where
  "two_triangle_mesh =
     \<lparr>Entities = (\<lambda>codim. if codim = 1 then
          [square_edge 0 (0, 0) (1, 0) 1, square_edge 1 (1, 0) (1, 1) 1,
           square_edge 2 (1, 1) (0, 1) 1, square_edge 3 (0, 1) (0, 0) 1,
           square_edge 4 (0, 0) (1, 1) (sqrt 2)] else []),
      BoundaryFlags = (\<lambda>codim e. Index e < 4)\<rparr>"

subsection \<open>Psi\<close>

text \<open>
  Modelled from the spec: the bodies of \<^verbatim>\<open>Psi::operator()\<close> and \<^verbatim>\<open>Psi::grad\<close> are in
  stableevaluationatapoint.cc, which is not part of the sources; the header only declares
  them (lines 170-183). The three branches are those of the spec (section 4.1). They
  are also the reference functions \<^verbatim>\<open>Psi\<close> and \<^verbatim>\<open>gradPsi\<close> kept as comments in the
  header (lines 186-223), which fix the centre to \<^verbatim>\<open>half = (0.5, 0.5)\<close>; the class has
  the member \<^verbatim>\<open>center_\<close> in its place. \<^verbatim>\<open>Psi::lapl\<close> is not modelled: its body is not
  in the sources either, and the spec gives no formula for it.
\<close>

definition Psi_eval :: "Vector2d \<Rightarrow> Vector2d \<Rightarrow> real" where
  "Psi_eval center y =
     (let constant = pi / (0.5 * sqrt 2 - 1.0);
          dist = vnorm (vsub y center)
      in if dist \<le> 0.25 * sqrt 2 then 0.0
         else if dist \<ge> 0.5 then 1.0
         else (cos (constant * (dist - 0.5)))\<^sup>2)"

definition Psi_grad :: "Vector2d \<Rightarrow> Vector2d \<Rightarrow> Vector2d" where
  "Psi_grad center y =
     (let constant = pi / (0.5 * sqrt 2 - 1.0);
          dist = vnorm (vsub y center)
      in if dist \<le> 0.25 * sqrt 2 then (0.0, 0.0)
         else if dist \<ge> 0.5 then (0.0, 0.0)
         else smult (- 2.0 * cos (constant * (dist - 0.5)) *
                       sin (constant * (dist - 0.5)) * (constant / dist))
                (vsub y center))"

text \<open>
  The radial profile \<open>f(d) = cos\<^sup>2(c (d - 0.5))\<close> of the transition branch, its first and
  second derivative, and the Laplacian of a radial function in the plane,
  \<open>f''(d) + f'(d) / d\<close>.
\<close>

definition Psi_c :: real where
  "Psi_c = pi / (0.5 * sqrt 2 - 1)"

definition Psi_profile :: "real \<Rightarrow> real" where
  "Psi_profile d = (cos (Psi_c * (d - 0.5)))\<^sup>2"

definition Psi_profile_d1 :: "real \<Rightarrow> real" where
  "Psi_profile_d1 d = - 2 * Psi_c * cos (Psi_c * (d - 0.5)) * sin (Psi_c * (d - 0.5))"

definition Psi_profile_d2 :: "real \<Rightarrow> real" where
  "Psi_profile_d2 d =
     2 * Psi_c\<^sup>2 * ((sin (Psi_c * (d - 0.5)))\<^sup>2 - (cos (Psi_c * (d - 0.5)))\<^sup>2)"

definition radial_laplacian :: "real \<Rightarrow> real" where
  "radial_laplacian d = Psi_profile_d2 d + Psi_profile_d1 d / d"

text \<open>The distance \<^verbatim>\<open>(y - center_).norm()\<close> on which the three branches depend.\<close>

definition dist_to :: "Vector2d \<Rightarrow> Vector2d \<Rightarrow> real" where
  "dist_to center y = vnorm (vsub y center)"

subsection \<open>SolveBVP\<close>

text \<open>
  \<^verbatim>\<open>SolveBVP\<close> is a sequence of calls into LehrFEM++ and Eigen, which are outside the
  repository. The calls it makes are the fields of the record \<open>library\<close>, over the
  library's own types: the finite element space \<open>'fes\<close>, the triplet matrix
  \<^verbatim>\<open>lf::assemble::COOMatrix<double>\<close> \<open>'coo\<close>, \<^verbatim>\<open>Eigen::SparseMatrix<double>\<close> \<open>'sp\<close> and
  the state of an \<^verbatim>\<open>Eigen::SparseLU\<close> object \<open>'lu\<close>. A call that changes an argument in
  place returns the changed value.
  \<^item> \<open>AssembleMatrixLocally fes A\<close> is the call
    \<^verbatim>\<open>AssembleMatrixLocally(0, dofh, dofh, elmat_builder, A)\<close> with the
    \<^verbatim>\<open>LinearFELaplaceElementMatrix\<close> builder and the dof handler of \<open>fes\<close>.
  \<^item> \<open>AssembleVectorLocally fes f phi\<close> is the call
    \<^verbatim>\<open>AssembleVectorLocally(0, dofh, elvec_builder, phi)\<close> with the
    \<^verbatim>\<open>ScalarLoadElementVectorProvider\<close> built from \<open>fes\<close> and the source function \<open>f\<close>.
  \<^item> \<open>solver_compute\<close>, \<open>solver_info\<close> and \<open>solver_solve\<close> are \<^verbatim>\<open>solver.compute\<close>,
    \<^verbatim>\<open>solver.info()\<close> and \<^verbatim>\<open>solver.solve\<close>; \<open>solver_solve\<close> also returns the state
    of the solver after the call, which the second \<^verbatim>\<open>solver.info()\<close> reads.
  \<^item> \<open>times_vec A x\<close> is Eigen's product \<^verbatim>\<open>A * x\<close>. \<^verbatim>\<open>SolveBVP\<close> does not call it; it
    says what a solution of the linear system is.
  \<^item> \<open>GlobalDofIndices fes e\<close> is \<^verbatim>\<open>dofh.GlobalDofIndices(e)\<close>: the global indices of the
    degrees of freedom that belong to the entity \<open>e\<close>, for an edge of the degree-1 space
    those of its two end points in the order of its corners. \<^verbatim>\<open>SolveBVP\<close> does not call
    it; it says which degrees of freedom lie on an edge.
  The shape function layout \<^verbatim>\<open>rsf_edge_p\<close> is fetched and not used, and is left out.
\<close>

datatype ComputationInfo = Success | NumericalIssue | NoConvergence | InvalidInput

record ('fes, 'coo, 'sp, 'lu) library =
  Mesh_of :: "'fes \<Rightarrow> Mesh"
  NumDofs :: "'fes \<Rightarrow> nat"
  COOMatrix :: "nat \<Rightarrow> nat \<Rightarrow> 'coo"
  AssembleMatrixLocally :: "'fes \<Rightarrow> 'coo \<Rightarrow> 'coo"
  AssembleVectorLocally :: "'fes \<Rightarrow> (Vector2d \<Rightarrow> real) \<Rightarrow> real list \<Rightarrow> real list"
  InitEssentialConditionFromFunction ::
    "'fes \<Rightarrow> (Entity \<Rightarrow> bool) \<Rightarrow> (Vector2d \<Rightarrow> real) \<Rightarrow> (bool \<times> real) list"
  FixFlaggedSolutionCompAlt ::
    "(nat \<Rightarrow> bool \<times> real) \<Rightarrow> 'coo \<Rightarrow> real list \<Rightarrow> 'coo \<times> real list"
  makeSparse :: "'coo \<Rightarrow> 'sp"
  solver_compute :: "'sp \<Rightarrow> 'lu"
  solver_info :: "'lu \<Rightarrow> ComputationInfo"
  solver_solve :: "'lu \<Rightarrow> real list \<Rightarrow> real list \<times> 'lu"
  times_vec :: "'sp \<Rightarrow> real list \<Rightarrow> real list"
  GlobalDofIndices :: "'fes \<Rightarrow> Entity \<Rightarrow> nat list"

text \<open>I.i: the triplet matrix \<^verbatim>\<open>A\<close> after the assembly of the Laplace element matrices.\<close>

definition SolveBVP_matrix :: "('fes, 'coo, 'sp, 'lu) library \<Rightarrow> 'fes \<Rightarrow> 'coo" where
  "SolveBVP_matrix lib fe_space_p =
     (let N_dofs = NumDofs lib fe_space_p;
          A = COOMatrix lib N_dofs N_dofs
      in AssembleMatrixLocally lib fe_space_p A)"

text \<open>
  I.ii: the vector \<^verbatim>\<open>phi\<close>, set to zero, after the assembly of the load vector of the
  source function \<^verbatim>\<open>mf_f\<close>, which returns \<^verbatim>\<open>0.0\<close> everywhere.
\<close>

definition SolveBVP_load :: "('fes, 'coo, 'sp, 'lu) library \<Rightarrow> 'fes \<Rightarrow> real list" where
  "SolveBVP_load lib fe_space_p =
     (let N_dofs = NumDofs lib fe_space_p;
          phi = replicate N_dofs 0
      in AssembleVectorLocally lib fe_space_p (\<lambda>x. 0.0) phi)"

text \<open>
  I.iii: the flags and values \<^verbatim>\<open>edges_flag_values_Dirichlet\<close>, from the boundary flags
  of the edges (co-dimension 1) and the Dirichlet data \<^verbatim>\<open>mf_g\<close>, which is \<open>u\<close>.
\<close>

definition SolveBVP_essential ::
  "('fes, 'coo, 'sp, 'lu) library \<Rightarrow> 'fes \<Rightarrow> (Vector2d \<Rightarrow> real) \<Rightarrow> (bool \<times> real) list"
where
  "SolveBVP_essential lib fe_space_p u =
     (let mesh_p = Mesh_of lib fe_space_p;
          bd_flags = flagEntitiesOnBoundary mesh_p 1
      in InitEssentialConditionFromFunction lib fe_space_p bd_flags (\<lambda>x. u x))"

text \<open>
  The linear system handed to the solver: \<^verbatim>\<open>A\<close> and \<^verbatim>\<open>phi\<close> after
  \<^verbatim>\<open>FixFlaggedSolutionCompAlt\<close>, with \<^verbatim>\<open>A\<close> converted by \<^verbatim>\<open>makeSparse\<close>. The selector
  is the lambda that indexes \<^verbatim>\<open>edges_flag_values_Dirichlet\<close>.
\<close>

definition SolveBVP_system ::
  "('fes, 'coo, 'sp, 'lu) library \<Rightarrow> 'fes \<Rightarrow> (Vector2d \<Rightarrow> real) \<Rightarrow> 'sp \<times> real list"
where
  "SolveBVP_system lib fe_space_p u =
     (let edges_flag_values_Dirichlet = SolveBVP_essential lib fe_space_p u;
          (A, phi) = FixFlaggedSolutionCompAlt lib
                       (\<lambda>gdof_idx. edges_flag_values_Dirichlet ! gdof_idx)
                       (SolveBVP_matrix lib fe_space_p) (SolveBVP_load lib fe_space_p)
      in (makeSparse lib A, phi))"

text \<open>II: the factorisation, the solve and the two \<^verbatim>\<open>LF_VERIFY_MSG\<close> checks.\<close>

definition SolveBVP ::
  "('fes, 'coo, 'sp, 'lu) library \<Rightarrow> 'fes \<Rightarrow> (Vector2d \<Rightarrow> real) \<Rightarrow> error + real list"
where
  "SolveBVP lib fe_space_p u =
     (let (A_sparse, phi) = SolveBVP_system lib fe_space_p u;
          solver = solver_compute lib A_sparse
      in if solver_info lib solver \<noteq> Success
         then Inl (VerifyFailed ''LU decomposition failed'')
         else (let (discrete_solution, solver') = solver_solve lib solver phi
               in if solver_info lib solver' \<noteq> Success
                  then Inl (VerifyFailed ''Solving LSE failed'')
                  else Inr discrete_solution))"

text \<open>
  What the library calls promise, as far as the solution is concerned.
  \<^item> The load vector of the zero function adds nothing to \<^verbatim>\<open>phi\<close>.
  \<^item> \<^verbatim>\<open>InitEssentialConditionFromFunction\<close>, for the space \<open>fes\<close>, the edge flags \<open>bd\<close>
    and the data \<open>g\<close>, returns one pair per degree of freedom; the two degrees of freedom
    of every flagged edge are flagged and carry the value of \<open>g\<close> at the corner of the
    edge they sit on; a degree of freedom on no flagged edge is not flagged.
  \<^item> After \<^verbatim>\<open>FixFlaggedSolutionCompAlt\<close> the right-hand side has its length; every
    solution of the changed system has the selected value in every flagged component,
    and satisfies the equation of the unchanged system in every other component.
  \<^item> When \<^verbatim>\<open>solver.info()\<close> is \<^verbatim>\<open>Success\<close> after \<^verbatim>\<open>compute\<close> and after \<^verbatim>\<open>solve\<close>, the
    vector returned solves the system and has the length of the right-hand side.
\<close>

definition load_contract :: "('fes, 'coo, 'sp, 'lu) library \<Rightarrow> bool" where
  "load_contract lib \<longleftrightarrow>
     (\<forall>fes phi. AssembleVectorLocally lib fes (\<lambda>x. 0) phi = phi)"

definition init_contract ::
  "('fes, 'coo, 'sp, 'lu) library \<Rightarrow> 'fes \<Rightarrow> (Entity \<Rightarrow> bool) \<Rightarrow> (Vector2d \<Rightarrow> real) \<Rightarrow> bool"
where
  "init_contract lib fes bd g \<longleftrightarrow>
     length (InitEssentialConditionFromFunction lib fes bd g) = NumDofs lib fes
     \<and> (\<forall>e \<in> set (filter bd (Entities (Mesh_of lib fes) 1)). \<forall>geo. Geometry e = Some geo \<longrightarrow>
          (\<exists>d0 d1. GlobalDofIndices lib fes e = [d0, d1]
             \<and> d0 < NumDofs lib fes \<and> d1 < NumDofs lib fes
             \<and> InitEssentialConditionFromFunction lib fes bd g ! d0
                 = (True, g (fst (Corners geo)))
             \<and> InitEssentialConditionFromFunction lib fes bd g ! d1
                 = (True, g (snd (Corners geo)))))
     \<and> (\<forall>i < NumDofs lib fes.
          (\<forall>e \<in> set (filter bd (Entities (Mesh_of lib fes) 1)).
              i \<notin> set (GlobalDofIndices lib fes e))
          \<longrightarrow> \<not> fst (InitEssentialConditionFromFunction lib fes bd g ! i))"

definition fix_contract :: "('fes, 'coo, 'sp, 'lu) library \<Rightarrow> bool" where
  "fix_contract lib \<longleftrightarrow>
     (\<forall>sel A b. length (snd (FixFlaggedSolutionCompAlt lib sel A b)) = length b
        \<and> (\<forall>x i. i < length b \<and> length x = length b
              \<and> times_vec lib (makeSparse lib (fst (FixFlaggedSolutionCompAlt lib sel A b))) x
                  = snd (FixFlaggedSolutionCompAlt lib sel A b)
              \<longrightarrow> (if fst (sel i) then x ! i = snd (sel i)
                   else times_vec lib (makeSparse lib A) x ! i = b ! i)))"

definition solver_contract :: "('fes, 'coo, 'sp, 'lu) library \<Rightarrow> bool" where
  "solver_contract lib \<longleftrightarrow>
     (\<forall>A b. solver_info lib (solver_compute lib A) = Success
          \<and> solver_info lib (snd (solver_solve lib (solver_compute lib A) b)) = Success
        \<longrightarrow> times_vec lib A (fst (solver_solve lib (solver_compute lib A) b)) = b
          \<and> length (fst (solver_solve lib (solver_compute lib A) b)) = length b)"

subsection \<open>A small library\<close>

text \<open>
  An instance of \<open>library\<close> to run \<open>SolveBVP\<close> on: degree-1 Lagrange spaces whose
  cells carry their element matrices, triplet matrices, and a direct solver for lower
  triangular systems. A cell has the global indices of its three nodes, the corners, its
  area and its Laplace element matrix; an edge has the global indices of its two ends.
\<close>

record cell =
  cell_dofs :: "nat list"
  cell_corners :: "Vector2d list"
  cell_area :: real
  cell_elmat :: "real list list"

record fe_space =
  fe_mesh :: Mesh
  fe_num_dofs :: nat
  fe_cells :: "cell list"
  fe_edge_dofs :: "Entity \<Rightarrow> nat list"

type_synonym triplets = "(nat \<times> nat \<times> real) list"

definition cell_triplets :: "cell \<Rightarrow> triplets" where
  "cell_triplets c =
     concat (map (\<lambda>(gi, row). map (\<lambda>(gj, a). (gi, gj, a)) (zip (cell_dofs c) row))
                 (zip (cell_dofs c) (cell_elmat c)))"

definition lib_AssembleMatrixLocally ::
  "fe_space \<Rightarrow> nat \<times> nat \<times> triplets \<Rightarrow> nat \<times> nat \<times> triplets" where
  "lib_AssembleMatrixLocally fes A =
     (fst A, fst (snd A), snd (snd A) @ concat (map cell_triplets (fe_cells fes)))"

text \<open>The load vector of a cell by the vertex rule: \<open>area / 3 * f(corner)\<close> per node.\<close>

definition lib_AssembleVectorLocally ::
  "fe_space \<Rightarrow> (Vector2d \<Rightarrow> real) \<Rightarrow> real list \<Rightarrow> real list" where
  "lib_AssembleVectorLocally fes f phi =
     fold (\<lambda>c. fold (\<lambda>(gi, p) phi. phi[gi := phi ! gi + cell_area c / 3 * f p])
                 (zip (cell_dofs c) (cell_corners c)))
          (fe_cells fes) phi"

text \<open>The ends of every flagged edge are flagged, with the value of \<open>g\<close> at the corner.\<close>

definition lib_InitEssentialConditionFromFunction ::
  "fe_space \<Rightarrow> (Entity \<Rightarrow> bool) \<Rightarrow> (Vector2d \<Rightarrow> real) \<Rightarrow> (bool \<times> real) list" where
  "lib_InitEssentialConditionFromFunction fes bd g =
     fold (\<lambda>e vec.
             if bd e then
               (case Geometry e of
                  None \<Rightarrow> vec
                | Some geo \<Rightarrow>
                    vec[fe_edge_dofs fes e ! 0 := (True, g (fst (Corners geo))),
                        fe_edge_dofs fes e ! 1 := (True, g (snd (Corners geo)))])
             else vec)
          (Entities (fe_mesh fes) 1) (replicate (fe_num_dofs fes) (False, 0))"

text \<open>
  The rows of the flagged components are emptied and get a unit diagonal entry; the
  flagged components of the right-hand side get the selected values. All other rows and
  components stay as they are.
\<close>

definition lib_FixFlaggedSolutionCompAlt ::
  "(nat \<Rightarrow> bool \<times> real) \<Rightarrow> nat \<times> nat \<times> triplets \<Rightarrow> real list \<Rightarrow>
   (nat \<times> nat \<times> triplets) \<times> real list" where
  "lib_FixFlaggedSolutionCompAlt sel A b =
     ((fst A, fst (snd A),
       filter (\<lambda>t. \<not> fst (sel (fst t))) (snd (snd A))
         @ map (\<lambda>k. (k, k, 1)) (filter (\<lambda>k. fst (sel k)) [0..<length b])),
      map (\<lambda>k. if fst (sel k) then snd (sel k) else b ! k) [0..<length b])"

text \<open>The entry \<open>(i, j)\<close> of a triplet matrix is the sum of its triplets at \<open>(i, j)\<close>.\<close>

definition entry :: "triplets \<Rightarrow> nat \<Rightarrow> nat \<Rightarrow> real" where
  "entry ts i j = (\<Sum>t\<leftarrow>ts. if fst t = i \<and> fst (snd t) = j then snd (snd t) else 0)"

definition lib_times_vec :: "nat \<times> triplets \<Rightarrow> real list \<Rightarrow> real list" where
  "lib_times_vec A x =
     map (\<lambda>i. \<Sum>j\<leftarrow>[0..<length x]. entry (snd A) i j * x ! j) [0..<length x]"

text \<open>
  The solver is forward substitution. It factorises a matrix whose triplets above the
  diagonal are zero and whose diagonal entries are not, and reports a numerical issue
  for any other matrix.
\<close>

definition lib_compute :: "nat \<times> triplets \<Rightarrow> ComputationInfo \<times> (nat \<times> triplets)" where
  "lib_compute A =
     (if list_all (\<lambda>t. fst (snd t) \<le> fst t \<or> snd (snd t) = 0) (snd A)
         \<and> list_all (\<lambda>i. entry (snd A) i i \<noteq> 0) [0..<fst A]
      then (Success, A)
      else (NumericalIssue, A))"

fun forward_substitution :: "triplets \<Rightarrow> real list \<Rightarrow> nat \<Rightarrow> real list" where
  "forward_substitution ts b 0 = []"
| "forward_substitution ts b (Suc k) =
     (let xs = forward_substitution ts b k
      in xs @ [(b ! k - (\<Sum>j\<leftarrow>[0..<k]. entry ts k j * xs ! j)) / entry ts k k])"

definition lib_solve ::
  "ComputationInfo \<times> (nat \<times> triplets) \<Rightarrow> real list \<Rightarrow>
   real list \<times> (ComputationInfo \<times> (nat \<times> triplets))" where
  "lib_solve lu b =
     (if fst lu = Success \<and> length b = fst (snd lu)
      then (forward_substitution (snd (snd lu)) b (length b), lu)
      else ([], (InvalidInput, snd lu)))"

definition small_library ::
  "(fe_space, nat \<times> nat \<times> triplets, nat \<times> triplets, ComputationInfo \<times> (nat \<times> triplets)) library"
where
  "small_library =
     \<lparr>Mesh_of = fe_mesh, NumDofs = fe_num_dofs,
      COOMatrix = (\<lambda>r c. (r, c, [])),
      AssembleMatrixLocally = lib_AssembleMatrixLocally,
      AssembleVectorLocally = lib_AssembleVectorLocally,
      InitEssentialConditionFromFunction = lib_InitEssentialConditionFromFunction,
      FixFlaggedSolutionCompAlt = lib_FixFlaggedSolutionCompAlt,
      makeSparse = (\<lambda>A. (fst A, snd (snd A))),
      solver_compute = lib_compute, solver_info = fst, solver_solve = lib_solve,
      times_vec = lib_times_vec, GlobalDofIndices = fe_edge_dofs\<rparr>"

text \<open>
  The degree-1 space on \<open>two_triangle_mesh\<close>: nodes \<open>(0,0)\<close>, \<open>(1,0)\<close>, \<open>(1,1)\<close>,
  \<open>(0,1)\<close>, all on the boundary, and the triangles \<open>0 1 2\<close> and \<open>0 2 3\<close>.
\<close>

definition two_triangle_cells :: "cell list" where
  "two_triangle_cells =
     [\<lparr>cell_dofs = [0, 1, 2], cell_corners = [(0, 0), (1, 0), (1, 1)], cell_area = 1 / 2,
       cell_elmat = [[1 / 2, - 1 / 2, 0], [- 1 / 2, 1, - 1 / 2], [0, - 1 / 2, 1 / 2]]\<rparr>,
      \<lparr>cell_dofs = [0, 2, 3], cell_corners = [(0, 0), (1, 1), (0, 1)], cell_area = 1 / 2,
       cell_elmat = [[1 / 2, 0, - 1 / 2], [0, 1 / 2, - 1 / 2], [- 1 / 2, - 1 / 2, 1]]\<rparr>]"

definition two_triangle_edge_dofs :: "Entity \<Rightarrow> nat list" where
  "two_triangle_edge_dofs e =
     (if Index e = 0 then [0, 1] else if Index e = 1 then [1, 2]
      else if Index e = 2 then [2, 3] else if Index e = 3 then [3, 0] else [0, 2])"

definition two_triangle_space :: fe_space where
  "two_triangle_space =
     \<lparr>fe_mesh = two_triangle_mesh, fe_num_dofs = 4, fe_cells = two_triangle_cells,
      fe_edge_dofs = two_triangle_edge_dofs\<rparr>"

text \<open>The same space with a fifth degree of freedom that no cell and no edge uses.\<close>

definition loose_dof_space :: fe_space where
  "loose_dof_space = two_triangle_space\<lparr>fe_num_dofs := 5\<rparr>"

text \<open>A library whose solver reports a failure after \<^verbatim>\<open>solve\<close>.\<close>

definition failing_solve_library ::
  "(fe_space, nat \<times> nat \<times> triplets, nat \<times> triplets, ComputationInfo \<times> (nat \<times> triplets)) library"
where
  "failing_solve_library =
     small_library\<lparr>solver_solve := (\<lambda>lu b. (fst (lib_solve lu b), (NumericalIssue, snd lu)))\<rparr>"

text \<open>
  The unit square cut by both diagonals: the four corners \<open>0\<close> to \<open>3\<close> on the boundary,
  the centre \<open>(1/2, 1/2)\<close> as node \<open>4\<close> in the interior, four boundary edges, four
  edges from a corner to the centre, and four triangles with their right angle at the
  centre.
\<close>

definition four_triangle_mesh :: Mesh where
  "four_triangle_mesh =
     \<lparr>Entities = (\<lambda>codim. if codim = 1 then
          [square_edge 0 (0, 0) (1, 0) 1, square_edge 1 (1, 0) (1, 1) 1,
           square_edge 2 (1, 1) (0, 1) 1, square_edge 3 (0, 1) (0, 0) 1,
           square_edge 4 (0, 0) (1 / 2, 1 / 2) (sqrt 2 / 2),
           square_edge 5 (1, 0) (1 / 2, 1 / 2) (sqrt 2 / 2),
           square_edge 6 (1, 1) (1 / 2, 1 / 2) (sqrt 2 / 2),
           square_edge 7 (0, 1) (1 / 2, 1 / 2) (sqrt 2 / 2)] else []),
      BoundaryFlags = (\<lambda>codim e. Index e < 4)\<rparr>"

definition four_triangle_cells :: "cell list" where
  "four_triangle_cells =
     [\<lparr>cell_dofs = [0, 1, 4], cell_corners = [(0, 0), (1, 0), (1 / 2, 1 / 2)],
       cell_area = 1 / 4,
       cell_elmat = [[1 / 2, 0, - 1 / 2], [0, 1 / 2, - 1 / 2], [- 1 / 2, - 1 / 2, 1]]\<rparr>,
      \<lparr>cell_dofs = [1, 2, 4], cell_corners = [(1, 0), (1, 1), (1 / 2, 1 / 2)],
       cell_area = 1 / 4,
       cell_elmat = [[1 / 2, 0, - 1 / 2], [0, 1 / 2, - 1 / 2], [- 1 / 2, - 1 / 2, 1]]\<rparr>,
      \<lparr>cell_dofs = [2, 3, 4], cell_corners = [(1, 1), (0, 1), (1 / 2, 1 / 2)],
       cell_area = 1 / 4,
       cell_elmat = [[1 / 2, 0, - 1 / 2], [0, 1 / 2, - 1 / 2], [- 1 / 2, - 1 / 2, 1]]\<rparr>,
      \<lparr>cell_dofs = [3, 0, 4], cell_corners = [(0, 1), (0, 0), (1 / 2, 1 / 2)],
       cell_area = 1 / 4,
       cell_elmat = [[1 / 2, 0, - 1 / 2], [0, 1 / 2, - 1 / 2], [- 1 / 2, - 1 / 2, 1]]\<rparr>]"

definition four_triangle_edge_dofs :: "Entity \<Rightarrow> nat list" where
  "four_triangle_edge_dofs e =
     (if Index e = 0 then [0, 1] else if Index e = 1 then [1, 2]
      else if Index e = 2 then [2, 3] else if Index e = 3 then [3, 0]
      else if Index e = 4 then [0, 4] else if Index e = 5 then [1, 4]
      else if Index e = 6 then [2, 4] else [3, 4])"

definition four_triangle_space :: fe_space where
  "four_triangle_space =
     \<lparr>fe_mesh = four_triangle_mesh, fe_num_dofs = 5, fe_cells = four_triangle_cells,
      fe_edge_dofs = four_triangle_edge_dofs\<rparr>"

section \<open>Properties\<close>

subsection \<open>Vectors and the fundamental solution\<close>

lemma squaredNorm_nonneg: "0 \<le> squaredNorm a"
  by (simp add: squaredNorm_def)

lemma vnorm_power2: "(vnorm a)\<^sup>2 = squaredNorm a"
  by (simp add: vnorm_def squaredNorm_nonneg)

lemma FundamentalSolution_eval_neq:
  "x \<noteq> y \<Longrightarrow> FundamentalSolution_eval x y = Inr (G_formula x y)"
  by (simp add: FundamentalSolution_eval_def G_formula_def)

lemma FundamentalSolution_grad_neq:
  "x \<noteq> y \<Longrightarrow> FundamentalSolution_grad x y = Inr (gradG_formula x y)"
  by (simp add: FundamentalSolution_grad_def gradG_formula_def vnorm_power2)

lemma PSL_loop_sum:
  assumes "\<forall>e \<in> set (filter bd es). Geometry e \<noteq> None \<and> edge_midpoint e \<noteq> x"
  shows "PSL_loop bd v x es acc =
         Inr (acc + (\<Sum>e\<leftarrow>filter bd es. v (edge_midpoint e) * G_formula x (edge_midpoint e) * edge_length e))"
  using assms
proof (induction es arbitrary: acc)
  case Nil
  show ?case by simp
next
  case (Cons e es)
  show ?case
  proof (cases "bd e")
    case False
    with Cons show ?thesis by simp
  next
    case True
    with Cons.prems obtain geo where geo: "Geometry e = Some geo" and ne: "x \<noteq> midpoint_of geo"
      by (auto simp: edge_midpoint_def)
    from Cons.prems have rest: "\<forall>e \<in> set (filter bd es). Geometry e \<noteq> None \<and> edge_midpoint e \<noteq> x"
      by simp
    show ?thesis
      using True geo ne Cons.IH [OF rest]
      by (simp add: FundamentalSolution_eval_neq edge_midpoint_def edge_length_def add.assoc)
  qed
qed

lemma PDL_loop_sum:
  assumes "\<forall>e \<in> set (filter bd es). Geometry e \<noteq> None \<and> edge_midpoint e \<noteq> x"
  shows "PDL_loop n bd v x es acc =
         Inr (acc + (\<Sum>e\<leftarrow>filter bd es.
            v (edge_midpoint e) * dot (gradG_formula x (edge_midpoint e)) (n (edge_midpoint e)) * edge_length e))"
  using assms
proof (induction es arbitrary: acc)
  case Nil
  show ?case by simp
next
  case (Cons e es)
  show ?case
  proof (cases "bd e")
    case False
    with Cons show ?thesis by simp
  next
    case True
    with Cons.prems obtain geo where geo: "Geometry e = Some geo" and ne: "x \<noteq> midpoint_of geo"
      by (auto simp: edge_midpoint_def)
    from Cons.prems have rest: "\<forall>e \<in> set (filter bd es). Geometry e \<noteq> None \<and> edge_midpoint e \<noteq> x"
      by simp
    show ?thesis
      using True geo ne Cons.IH [OF rest]
      by (simp add: FundamentalSolution_grad_neq edge_midpoint_def edge_length_def add.assoc)
  qed
qed

lemma PSL_loop_Inr_D:
  "PSL_loop bd v x es acc = Inr p \<Longrightarrow>
   \<forall>e \<in> set (filter bd es). Geometry e \<noteq> None \<and> edge_midpoint e \<noteq> x"
proof (induction es arbitrary: acc)
  case Nil
  show ?case by simp
next
  case (Cons e es)
  then show ?case
    by (auto simp: FundamentalSolution_eval_def edge_midpoint_def split: if_splits option.splits sum.splits)
qed

lemma PDL_loop_Inr_D:
  "PDL_loop n bd v x es acc = Inr p \<Longrightarrow>
   \<forall>e \<in> set (filter bd es). Geometry e \<noteq> None \<and> edge_midpoint e \<noteq> x"
proof (induction es arbitrary: acc)
  case Nil
  show ?case by simp
next
  case (Cons e es)
  then show ?case
    by (auto simp: FundamentalSolution_grad_def edge_midpoint_def split: if_splits option.splits sum.splits)
qed

lemma edge_midpoint_explicit:
  "edge_midpoint e =
     (0.5 * (fst (corner0 e) + fst (corner1 e)), 0.5 * (snd (corner0 e) + snd (corner1 e)))"
  by (simp add: edge_midpoint_def midpoint_of_def smult_def vadd_def corner0_def corner1_def)

text \<open>
  Claim C1. On a mesh whose boundary-flagged edges all have a geometry, and for a point
  \<open>x\<close> that is not the midpoint of one of them (so that neither assertion fires),
  \<open>PSL\<close> returns the sum over the boundary-flagged edges \<open>e\<close>, in the mesh's order, of
  \<open>v(m) * G\<^sub>x(m) * length(e)\<close>, and \<open>PDL\<close> returns the sum of
  \<open>v(m) * (gradG\<^sub>x(m) \<bullet> n(m)) * length(e)\<close>. Here \<open>m\<close> is the midpoint
  \<open>0.5 * (c\<^sub>0 + c\<^sub>1)\<close> of the two corners \<open>c\<^sub>0\<close>, \<open>c\<^sub>1\<close> of \<open>e\<close>, written out by
  coordinates, and \<open>n\<close> is \<^verbatim>\<open>OuterNormalUnitSquare\<close>. Edges that are not flagged do not
  occur in the sums.
\<close>

theorem PSL_PDL_midpoint_rule:
  assumes "\<forall>e \<in> set (boundary_edges mesh). Geometry e \<noteq> None
      \<and> (0.5 * (fst (corner0 e) + fst (corner1 e)), 0.5 * (snd (corner0 e) + snd (corner1 e))) \<noteq> x"
  shows "PSL mesh v x =
           Inr (\<Sum>e\<leftarrow>boundary_edges mesh.
                  let m = (0.5 * (fst (corner0 e) + fst (corner1 e)),
                           0.5 * (snd (corner0 e) + snd (corner1 e)))
                  in v m * G_formula x m * edge_length e)
       \<and> PDL n mesh v x =
           Inr (\<Sum>e\<leftarrow>boundary_edges mesh.
                  let m = (0.5 * (fst (corner0 e) + fst (corner1 e)),
                           0.5 * (snd (corner0 e) + snd (corner1 e)))
                  in v m * dot (gradG_formula x m) (n m) * edge_length e)"
proof -
  have ok: "\<forall>e \<in> set (filter (flagEntitiesOnBoundary mesh 1) (Entities mesh 1)).
      Geometry e \<noteq> None \<and> edge_midpoint e \<noteq> x"
    using assms unfolding edge_midpoint_explicit boundary_edges_def .
  show ?thesis
    unfolding PSL_def PDL_def boundary_edges_def Let_def
      PSL_loop_sum [OF ok] PDL_loop_sum [OF ok] edge_midpoint_explicit
    by simp
qed

lemma two_triangle_boundary_edges:
  "boundary_edges two_triangle_mesh =
     [square_edge 0 (0, 0) (1, 0) 1, square_edge 1 (1, 0) (1, 1) 1,
      square_edge 2 (1, 1) (0, 1) 1, square_edge 3 (0, 1) (0, 0) 1]"
  by (simp add: boundary_edges_def two_triangle_mesh_def flagEntitiesOnBoundary_def square_edge_def)

lemma two_triangle_ok:
  "\<forall>e \<in> set (boundary_edges two_triangle_mesh). Geometry e \<noteq> None \<and> edge_midpoint e \<noteq> (0.3, 0.4)"
  by (simp add: two_triangle_boundary_edges square_edge_def edge_midpoint_def midpoint_of_def
      smult_def vadd_def)

theorem PSL_PDL_midpoint_rule_witness:
  "boundary_edges two_triangle_mesh =
     [square_edge 0 (0, 0) (1, 0) 1, square_edge 1 (1, 0) (1, 1) 1,
      square_edge 2 (1, 1) (0, 1) 1, square_edge 3 (0, 1) (0, 0) 1]
   \<and> PSL two_triangle_mesh (\<lambda>m. 1) (0.3, 0.4) =
       Inr (G_formula (0.3, 0.4) (1 / 2, 0) + G_formula (0.3, 0.4) (1, 1 / 2)
            + G_formula (0.3, 0.4) (1 / 2, 1) + G_formula (0.3, 0.4) (0, 1 / 2))
   \<and> PDL (\<lambda>m. (0, - 1)) two_triangle_mesh (\<lambda>m. 1) (0.3, 0.4) =
       Inr (dot (gradG_formula (0.3, 0.4) (1 / 2, 0)) (0, - 1)
            + dot (gradG_formula (0.3, 0.4) (1, 1 / 2)) (0, - 1)
            + dot (gradG_formula (0.3, 0.4) (1 / 2, 1)) (0, - 1)
            + dot (gradG_formula (0.3, 0.4) (0, 1 / 2)) (0, - 1))"
proof -
  have ok: "\<forall>e \<in> set (boundary_edges two_triangle_mesh). Geometry e \<noteq> None
      \<and> (0.5 * (fst (corner0 e) + fst (corner1 e)), 0.5 * (snd (corner0 e) + snd (corner1 e)))
          \<noteq> (0.3, 0.4)"
    using two_triangle_ok unfolding edge_midpoint_explicit .
  show ?thesis
    using PSL_PDL_midpoint_rule [OF ok, of "\<lambda>m. 1" "\<lambda>m. (0, - 1)"]
    by (simp add: two_triangle_boundary_edges square_edge_def corner0_def corner1_def
        edge_length_def)
qed

text \<open>
  Claim C4. For \<open>y \<noteq> x\<close> the fundamental solution returns
  \<open>-(1/(2\<pi>)) ln \<parallel>x - y\<parallel>\<close> and its gradient returns \<open>(x - y) / (2\<pi> \<parallel>x - y\<parallel>\<^sup>2)\<close>; at
  \<open>y = x\<close> both calls fail with the assertion instead of returning a number.
\<close>

theorem FundamentalSolution_formulas:
  "(x \<noteq> y \<longrightarrow>
      FundamentalSolution_eval x y = Inr (- (1 / (2 * pi)) * ln (vnorm (vsub x y)))
    \<and> FundamentalSolution_grad x y = Inr (sdiv (vsub x y) (2 * pi * (vnorm (vsub x y))\<^sup>2)))
   \<and> (\<exists>msg. FundamentalSolution_eval x x = Inl (AssertFailed msg))
   \<and> (\<exists>msg. FundamentalSolution_grad x x = Inl (AssertFailed msg))"
  by (simp add: FundamentalSolution_eval_def FundamentalSolution_grad_def vnorm_power2)

theorem FundamentalSolution_formulas_witness:
  "FundamentalSolution_eval (0.3, 0.4) (0.5, 0) =
     Inr (- (1 / (2 * pi)) * ln (vnorm (vsub (0.3, 0.4) (0.5, 0))))
   \<and> FundamentalSolution_grad (0.3, 0.4) (0.5, 0) =
     Inr (sdiv (vsub (0.3, 0.4) (0.5, 0)) (2 * pi * (vnorm (vsub (0.3, 0.4) (0.5, 0)))\<^sup>2))
   \<and> vsub (0.3, 0.4) (0.5, 0) = (- 0.2, 0.4)"
  using FundamentalSolution_formulas [of "(0.3, 0.4)" "(0.5, 0)"]
  by (simp add: vsub_def)

lemma sum_list_linear:
  "(\<Sum>e\<leftarrow>es. (a * f e + b * g e) * h e * (k e :: real)) =
   a * (\<Sum>e\<leftarrow>es. f e * h e * k e) + b * (\<Sum>e\<leftarrow>es. g e * h e * k e)"
  by (induction es) (simp_all add: algebra_simps)

text \<open>
  Claim C10. \<open>PSL\<close> and \<open>PDL\<close> are linear in the density: where they return values
  for the densities \<open>v\<close> and \<open>w\<close>, they return the same linear combination of these
  values for the density \<open>a v + b w\<close>, and \<open>0\<close> for the zero density.
\<close>

theorem PSL_PDL_linear:
  assumes "PSL mesh v x = Inr p" and "PSL mesh w x = Inr q"
    and "PDL n mesh v x = Inr p'" and "PDL n mesh w x = Inr q'"
  shows "PSL mesh (\<lambda>m. a * v m + b * w m) x = Inr (a * p + b * q)
       \<and> PDL n mesh (\<lambda>m. a * v m + b * w m) x = Inr (a * p' + b * q')
       \<and> PSL mesh (\<lambda>m. 0) x = Inr 0
       \<and> PDL n mesh (\<lambda>m. 0) x = Inr 0"
proof -
  let ?bd = "flagEntitiesOnBoundary mesh 1"
  let ?es = "Entities mesh 1"
  have ok: "\<forall>e \<in> set (filter ?bd ?es). Geometry e \<noteq> None \<and> edge_midpoint e \<noteq> x"
    using assms(1) PSL_loop_Inr_D [of ?bd v x ?es 0 p] by (simp add: PSL_def)
  have p: "p = (\<Sum>e\<leftarrow>filter ?bd ?es. v (edge_midpoint e) * G_formula x (edge_midpoint e) * edge_length e)"
    using assms(1) PSL_loop_sum [OF ok, of v 0] by (simp add: PSL_def)
  have q: "q = (\<Sum>e\<leftarrow>filter ?bd ?es. w (edge_midpoint e) * G_formula x (edge_midpoint e) * edge_length e)"
    using assms(2) PSL_loop_sum [OF ok, of w 0] by (simp add: PSL_def)
  have p': "p' = (\<Sum>e\<leftarrow>filter ?bd ?es. v (edge_midpoint e) *
      dot (gradG_formula x (edge_midpoint e)) (n (edge_midpoint e)) * edge_length e)"
    using assms(3) PDL_loop_sum [OF ok, of n v 0] by (simp add: PDL_def)
  have q': "q' = (\<Sum>e\<leftarrow>filter ?bd ?es. w (edge_midpoint e) *
      dot (gradG_formula x (edge_midpoint e)) (n (edge_midpoint e)) * edge_length e)"
    using assms(4) PDL_loop_sum [OF ok, of n w 0] by (simp add: PDL_def)
  have 1: "PSL mesh (\<lambda>m. a * v m + b * w m) x = Inr (a * p + b * q)"
    unfolding p q PSL_def PSL_loop_sum [OF ok] by (simp add: sum_list_linear)
  have 2: "PDL n mesh (\<lambda>m. a * v m + b * w m) x = Inr (a * p' + b * q')"
    unfolding p' q' PDL_def PDL_loop_sum [OF ok] by (simp add: sum_list_linear)
  have 3: "PSL mesh (\<lambda>m. 0) x = Inr 0"
    unfolding PSL_def PSL_loop_sum [OF ok] by simp
  have 4: "PDL n mesh (\<lambda>m. 0) x = Inr 0"
    unfolding PDL_def PDL_loop_sum [OF ok] by simp
  from 1 2 3 4 show ?thesis by blast
qed

lemma two_triangle_PSL_returns:
  "\<exists>p. PSL two_triangle_mesh v (0.3, 0.4) = Inr p"
  using two_triangle_ok
    PSL_loop_sum [of "flagEntitiesOnBoundary two_triangle_mesh 1" "Entities two_triangle_mesh 1"
      "(0.3, 0.4)" v 0]
  by (simp add: PSL_def boundary_edges_def)

lemma two_triangle_PDL_returns:
  "\<exists>p. PDL n two_triangle_mesh v (0.3, 0.4) = Inr p"
  using two_triangle_ok
    PDL_loop_sum [of "flagEntitiesOnBoundary two_triangle_mesh 1" "Entities two_triangle_mesh 1"
      "(0.3, 0.4)" n v 0]
  by (simp add: PDL_def boundary_edges_def)

theorem PSL_PDL_linear_witness:
  "\<exists>p q p' q'.
     PSL two_triangle_mesh fst (0.3, 0.4) = Inr p
   \<and> PSL two_triangle_mesh snd (0.3, 0.4) = Inr q
   \<and> PDL (\<lambda>m. (0, - 1)) two_triangle_mesh fst (0.3, 0.4) = Inr p'
   \<and> PDL (\<lambda>m. (0, - 1)) two_triangle_mesh snd (0.3, 0.4) = Inr q'
   \<and> PSL two_triangle_mesh (\<lambda>m. 2 * fst m + 3 * snd m) (0.3, 0.4) = Inr (2 * p + 3 * q)
   \<and> PDL (\<lambda>m. (0, - 1)) two_triangle_mesh (\<lambda>m. 2 * fst m + 3 * snd m) (0.3, 0.4)
       = Inr (2 * p' + 3 * q')
   \<and> PSL two_triangle_mesh (\<lambda>m. 0) (0.3, 0.4) = Inr 0
   \<and> PDL (\<lambda>m. (0, - 1)) two_triangle_mesh (\<lambda>m. 0) (0.3, 0.4) = Inr 0"
proof -
  obtain p where p: "PSL two_triangle_mesh fst (0.3, 0.4) = Inr p"
    using two_triangle_PSL_returns by blast
  obtain q where q: "PSL two_triangle_mesh snd (0.3, 0.4) = Inr q"
    using two_triangle_PSL_returns by blast
  obtain p' where p': "PDL (\<lambda>m. (0, - 1)) two_triangle_mesh fst (0.3, 0.4) = Inr p'"
    using two_triangle_PDL_returns by blast
  obtain q' where q': "PDL (\<lambda>m. (0, - 1)) two_triangle_mesh snd (0.3, 0.4) = Inr q'"
    using two_triangle_PDL_returns by blast
  from PSL_PDL_linear [OF p q p' q', of 2 3] p q p' q' show ?thesis
    by (intro exI [of _ p] exI [of _ q] exI [of _ p'] exI [of _ q']) (intro conjI; elim conjE; assumption)
qed

subsection \<open>Psi: the three branches\<close>

lemma sqrt2_bounds: "1 < sqrt 2" "sqrt 2 < 2" "sqrt 2 * sqrt 2 = 2"
proof -
  show "1 < sqrt 2" by simp
  show "sqrt 2 < 2" by (rule real_less_lsqrt) simp_all
  show "sqrt 2 * sqrt 2 = 2" by simp
qed

lemma Psi_c_neg: "Psi_c < 0"
  using sqrt2_bounds(2) by (simp add: Psi_c_def field_simps)

lemma Psi_c_r1: "Psi_c * (0.25 * sqrt 2 - 0.5) = pi / 2"
proof -
  define a where "a = 0.5 * sqrt 2 - 1"
  have ne: "a \<noteq> 0" using sqrt2_bounds(2) by (simp add: a_def)
  have b: "0.25 * sqrt 2 - 0.5 = a / 2" by (simp add: a_def)
  have c: "Psi_c = pi / a" by (simp add: Psi_c_def a_def)
  show ?thesis unfolding b c using ne by simp
qed

lemma Psi_theta_bounds:
  assumes "0.25 * sqrt 2 < d" and "d < 0.5"
  shows "0 < Psi_c * (d - 0.5)" and "Psi_c * (d - 0.5) < pi / 2"
proof -
  show "0 < Psi_c * (d - 0.5)"
    using Psi_c_neg assms(2) by (simp add: mult_neg_neg)
  have "Psi_c * (d - 0.5) < Psi_c * (0.25 * sqrt 2 - 0.5)"
    using Psi_c_neg assms(1) by (simp add: mult_less_cancel_left)
  then show "Psi_c * (d - 0.5) < pi / 2"
    by (simp only: Psi_c_r1)
qed

lemma Psi_profile_deriv: "(Psi_profile has_real_derivative Psi_profile_d1 d) (at d)"
  unfolding Psi_profile_def [abs_def] Psi_profile_d1_def
  by (auto intro!: derivative_eq_intros simp: algebra_simps)

lemma Psi_profile_d1_deriv: "(Psi_profile_d1 has_real_derivative Psi_profile_d2 d) (at d)"
  unfolding Psi_profile_d1_def [abs_def] Psi_profile_d2_def
  by (auto intro!: derivative_eq_intros simp: algebra_simps power2_eq_square)

lemma Psi_profile_d1_pos:
  assumes "0.25 * sqrt 2 < d" and "d < 0.5"
  shows "0 < Psi_profile_d1 d"
proof -
  let ?t = "Psi_c * (d - 0.5)"
  have "0 < cos ?t" using Psi_theta_bounds [OF assms] by (simp add: cos_gt_zero_pi)
  moreover have "0 < sin ?t" using Psi_theta_bounds [OF assms] pi_gt_zero
    by (intro sin_gt_zero) linarith+
  ultimately have "0 < cos ?t * sin ?t" by simp
  moreover have "0 < - 2 * Psi_c" using Psi_c_neg by simp
  ultimately have "0 < (- 2 * Psi_c) * (cos ?t * sin ?t)"
    by (rule mult_pos_pos [rotated])
  then show ?thesis by (simp add: Psi_profile_d1_def mult.assoc)
qed


lemma vnorm_axis: "vnorm (a, 0) = \<bar>a\<bar>"
  by (simp add: vnorm_def squaredNorm_def)

lemma Psi_const_eq: "pi / (0.5 * sqrt 2 - 1.0) = Psi_c"
  by (simp add: Psi_c_def)

text \<open>
  Claim C5. With \<open>d = \<parallel>y - center\<parallel>\<close>: value \<open>0\<close> and gradient \<open>(0, 0)\<close> for
  \<open>d \<le> 0.25 \<surd>2\<close>; value \<open>1\<close> and gradient \<open>(0, 0)\<close> for \<open>d \<ge> 0.5\<close>; in between the
  value \<open>cos\<^sup>2(c (d - 0.5))\<close> and the gradient
  \<open>-2 cos(c (d - 0.5)) sin(c (d - 0.5)) (c / d) (y - center)\<close>, with
  \<open>c = \<pi> / (0.5 \<surd>2 - 1)\<close>.
\<close>

theorem Psi_piecewise:
  "(vnorm (vsub y center) \<le> 0.25 * sqrt 2 \<longrightarrow>
      Psi_eval center y = 0 \<and> Psi_grad center y = (0, 0))
   \<and> (vnorm (vsub y center) \<ge> 0.5 \<longrightarrow>
      Psi_eval center y = 1 \<and> Psi_grad center y = (0, 0))
   \<and> (0.25 * sqrt 2 < vnorm (vsub y center) \<and> vnorm (vsub y center) < 0.5 \<longrightarrow>
      Psi_eval center y =
        (cos (pi / (0.5 * sqrt 2 - 1) * (vnorm (vsub y center) - 0.5)))\<^sup>2
      \<and> Psi_grad center y =
        smult (- 2 * cos (pi / (0.5 * sqrt 2 - 1) * (vnorm (vsub y center) - 0.5))
                 * sin (pi / (0.5 * sqrt 2 - 1) * (vnorm (vsub y center) - 0.5))
                 * (pi / (0.5 * sqrt 2 - 1) / vnorm (vsub y center)))
              (vsub y center))"
  using sqrt2_bounds(2) by (simp add: Psi_eval_def Psi_grad_def Let_def)

lemma sqrt2_less_16: "0.25 * sqrt 2 < (0.4::real)"
proof -
  have "sqrt 2 < 1.6" by (rule real_less_lsqrt) (simp_all add: power2_eq_square)
  then show ?thesis by simp
qed

theorem Psi_piecewise_witness:
  "Psi_eval (0.5, 0.5) (0.5, 0.5) = 0 \<and> Psi_grad (0.5, 0.5) (0.5, 0.5) = (0, 0)
   \<and> Psi_eval (0.5, 0.5) (1.5, 0.5) = 1 \<and> Psi_grad (0.5, 0.5) (1.5, 0.5) = (0, 0)
   \<and> Psi_eval (0.5, 0.5) (0.9, 0.5) = (cos (pi / (0.5 * sqrt 2 - 1) * (0.4 - 0.5)))\<^sup>2
   \<and> Psi_grad (0.5, 0.5) (0.9, 0.5) =
       smult (- 2 * cos (pi / (0.5 * sqrt 2 - 1) * (0.4 - 0.5))
                * sin (pi / (0.5 * sqrt 2 - 1) * (0.4 - 0.5))
                * (pi / (0.5 * sqrt 2 - 1) / 0.4)) (0.4, 0)"
proof -
  have d1: "vnorm (vsub (0.5, 0.5) (0.5, 0.5)) = 0"
    by (simp add: vsub_def vnorm_axis)
  have d2: "vnorm (vsub (1.5, 0.5) (0.5, 0.5)) = 1"
    by (simp add: vsub_def vnorm_axis)
  have v3: "vsub (0.9, 0.5) (0.5, 0.5) = (0.4, 0)"
    by (simp add: vsub_def)
  have d3': "vnorm (0.4, 0) = 0.4"
    by (simp add: vnorm_axis)
  have d3: "vnorm (vsub (0.9, 0.5) (0.5, 0.5)) = 0.4"
    unfolding v3 by (rule d3')
  have h1: "vnorm (vsub (0.5, 0.5) (0.5, 0.5)) \<le> 0.25 * sqrt 2"
    unfolding d1 by simp
  have h2: "vnorm (vsub (1.5, 0.5) (0.5, 0.5)) \<ge> 0.5"
    unfolding d2 by simp
  have h3: "0.25 * sqrt 2 < vnorm (vsub (0.9, 0.5) (0.5, 0.5))
      \<and> vnorm (vsub (0.9, 0.5) (0.5, 0.5)) < 0.5"
    unfolding d3 using sqrt2_less_16 by simp
  have a: "Psi_eval (0.5, 0.5) (0.5, 0.5) = 0 \<and> Psi_grad (0.5, 0.5) (0.5, 0.5) = (0, 0)"
    by (rule Psi_piecewise [of "(0.5, 0.5)" "(0.5, 0.5)", THEN conjunct1, THEN mp, OF h1])
  have b: "Psi_eval (0.5, 0.5) (1.5, 0.5) = 1 \<and> Psi_grad (0.5, 0.5) (1.5, 0.5) = (0, 0)"
    by (rule Psi_piecewise [of "(1.5, 0.5)" "(0.5, 0.5)", THEN conjunct2, THEN conjunct1, THEN mp, OF h2])
  have c: "Psi_eval (0.5, 0.5) (0.9, 0.5) =
        (cos (pi / (0.5 * sqrt 2 - 1) * (vnorm (vsub (0.9, 0.5) (0.5, 0.5)) - 0.5)))\<^sup>2
      \<and> Psi_grad (0.5, 0.5) (0.9, 0.5) =
        smult (- 2 * cos (pi / (0.5 * sqrt 2 - 1) * (vnorm (vsub (0.9, 0.5) (0.5, 0.5)) - 0.5))
                 * sin (pi / (0.5 * sqrt 2 - 1) * (vnorm (vsub (0.9, 0.5) (0.5, 0.5)) - 0.5))
                 * (pi / (0.5 * sqrt 2 - 1) / vnorm (vsub (0.9, 0.5) (0.5, 0.5))))
              (vsub (0.9, 0.5) (0.5, 0.5))"
    by (rule Psi_piecewise [of "(0.9, 0.5)" "(0.5, 0.5)", THEN conjunct2, THEN conjunct2, THEN mp, OF h3])
  from c have c': "Psi_eval (0.5, 0.5) (0.9, 0.5) = (cos (pi / (0.5 * sqrt 2 - 1) * (0.4 - 0.5)))\<^sup>2
   \<and> Psi_grad (0.5, 0.5) (0.9, 0.5) =
       smult (- 2 * cos (pi / (0.5 * sqrt 2 - 1) * (0.4 - 0.5))
                * sin (pi / (0.5 * sqrt 2 - 1) * (0.4 - 0.5))
                * (pi / (0.5 * sqrt 2 - 1) / 0.4)) (0.4, 0)"
    unfolding v3 d3' .
  from a b c' show ?thesis by (simp only: simp_thms)
qed

lemma sqrt2_quarter_pos: "0 < 0.25 * sqrt 2"
  by simp

subsection \<open>Psi: continuity at the transition radii\<close>

lemma abs_fst_le_vnorm: "\<bar>fst v\<bar> \<le> vnorm v"
proof -
  have "sqrt (fst v * fst v) \<le> sqrt (fst v * fst v + snd v * snd v)"
    by (rule real_sqrt_le_mono) simp
  then show ?thesis by (simp add: vnorm_def squaredNorm_def)
qed

lemma abs_snd_le_vnorm: "\<bar>snd v\<bar> \<le> vnorm v"
proof -
  have "sqrt (snd v * snd v) \<le> sqrt (fst v * fst v + snd v * snd v)"
    by (rule real_sqrt_le_mono) simp
  then show ?thesis by (simp add: vnorm_def squaredNorm_def)
qed

lemma Psi_eval_profile:
  "Psi_eval center y =
     (if dist_to center y \<le> 0.25 * sqrt 2 then 0
      else if dist_to center y \<ge> 0.5 then 1 else Psi_profile (dist_to center y))"
  unfolding Psi_eval_def Psi_const_eq Let_def dist_to_def Psi_profile_def by simp

lemma Psi_grad_components:
  "Psi_grad center y =
     (if dist_to center y \<le> 0.25 * sqrt 2 \<or> dist_to center y \<ge> 0.5 then (0, 0)
      else (Psi_profile_d1 (dist_to center y) * (fst (vsub y center) / dist_to center y),
            Psi_profile_d1 (dist_to center y) * (snd (vsub y center) / dist_to center y)))"
  unfolding Psi_grad_def Psi_const_eq Let_def dist_to_def Psi_profile_d1_def smult_def
  by simp

lemma Psi_grad_fst_bound: "\<bar>fst (Psi_grad center y)\<bar> \<le> \<bar>Psi_profile_d1 (dist_to center y)\<bar>"
proof (cases "dist_to center y \<le> 0.25 * sqrt 2 \<or> dist_to center y \<ge> 0.5")
  case True
  then show ?thesis by (simp add: Psi_grad_components)
next
  case False
  then have pos: "0 < dist_to center y" using sqrt2_quarter_pos by linarith
  have "\<bar>fst (vsub y center) / dist_to center y\<bar> \<le> 1"
    using pos abs_fst_le_vnorm [of "vsub y center"] by (simp add: dist_to_def)
  then have "\<bar>Psi_profile_d1 (dist_to center y)\<bar> * \<bar>fst (vsub y center) / dist_to center y\<bar>
      \<le> \<bar>Psi_profile_d1 (dist_to center y)\<bar> * 1"
    by (intro mult_left_mono) simp_all
  then show ?thesis using False by (simp add: Psi_grad_components abs_mult)
qed

lemma Psi_grad_snd_bound: "\<bar>snd (Psi_grad center y)\<bar> \<le> \<bar>Psi_profile_d1 (dist_to center y)\<bar>"
proof (cases "dist_to center y \<le> 0.25 * sqrt 2 \<or> dist_to center y \<ge> 0.5")
  case True
  then show ?thesis by (simp add: Psi_grad_components)
next
  case False
  then have pos: "0 < dist_to center y" using sqrt2_quarter_pos by linarith
  have "\<bar>snd (vsub y center) / dist_to center y\<bar> \<le> 1"
    using pos abs_snd_le_vnorm [of "vsub y center"] by (simp add: dist_to_def)
  then have "\<bar>Psi_profile_d1 (dist_to center y)\<bar> * \<bar>snd (vsub y center) / dist_to center y\<bar>
      \<le> \<bar>Psi_profile_d1 (dist_to center y)\<bar> * 1"
    by (intro mult_left_mono) simp_all
  then show ?thesis using False by (simp add: Psi_grad_components abs_mult)
qed

lemma Psi_profile_at_radii:
  "Psi_profile (0.25 * sqrt 2) = 0" "Psi_profile 0.5 = 1"
  "Psi_profile_d1 (0.25 * sqrt 2) = 0" "Psi_profile_d1 0.5 = 0"
  unfolding Psi_profile_def Psi_profile_d1_def Psi_c_r1 by simp_all

lemma Psi_profile_tendsto:
  assumes "(g \<longlongrightarrow> r) F"
  shows "((\<lambda>y. Psi_profile (g y)) \<longlongrightarrow> Psi_profile r) F"
  by (rule isCont_tendsto_compose [OF DERIV_isCont [OF Psi_profile_deriv] assms])

lemma Psi_profile_d1_tendsto:
  assumes "(g \<longlongrightarrow> r) F"
  shows "((\<lambda>y. Psi_profile_d1 (g y)) \<longlongrightarrow> Psi_profile_d1 r) F"
  by (rule isCont_tendsto_compose [OF DERIV_isCont [OF Psi_profile_d1_deriv] assms])

lemma Psi_grad_tendsto_zero:
  assumes "((\<lambda>y. Psi_profile_d1 (dist_to center y)) \<longlongrightarrow> 0) F"
  shows "(Psi_grad center \<longlongrightarrow> (0, 0)) F"
proof -
  have 1: "((\<lambda>y. fst (Psi_grad center y)) \<longlongrightarrow> 0) F"
    by (rule tendsto_0_le [OF assms, where K = 1])
      (simp add: Psi_grad_fst_bound)
  have 2: "((\<lambda>y. snd (Psi_grad center y)) \<longlongrightarrow> 0) F"
    by (rule tendsto_0_le [OF assms, where K = 1])
      (simp add: Psi_grad_snd_bound)
  have "((\<lambda>y. (fst (Psi_grad center y), snd (Psi_grad center y))) \<longlongrightarrow> (0, 0)) F"
    by (rule tendsto_Pair [OF 1 2])
  then show ?thesis by simp
qed

lemma Psi_eval_tendsto_r1:
  assumes D: "(dist_to center \<longlongrightarrow> 0.25 * sqrt 2) F"
  shows "(Psi_eval center \<longlongrightarrow> 0) F"
proof -
  have P: "((\<lambda>y. Psi_profile (dist_to center y)) \<longlongrightarrow> 0) F"
    using Psi_profile_tendsto [OF D] by (simp only: Psi_profile_at_radii)
  have lt: "0.25 * sqrt 2 < (0.5::real)" using sqrt2_bounds(2) by simp
  have ev: "eventually (\<lambda>y. dist_to center y < 0.5) F"
    by (rule order_tendstoD(2) [OF D lt])
  have "eventually (\<lambda>y. norm (Psi_eval center y) \<le> norm (Psi_profile (dist_to center y)) * 1) F"
    using ev by eventually_elim (simp add: Psi_eval_profile)
  then show ?thesis by (rule tendsto_0_le [OF P])
qed

lemma Psi_eval_tendsto_r2:
  assumes D: "(dist_to center \<longlongrightarrow> 0.5) F"
  shows "(Psi_eval center \<longlongrightarrow> 1) F"
proof -
  have "((\<lambda>y. Psi_profile (dist_to center y)) \<longlongrightarrow> 1) F"
    using Psi_profile_tendsto [OF D] by (simp only: Psi_profile_at_radii)
  then have P: "((\<lambda>y. Psi_profile (dist_to center y) - 1) \<longlongrightarrow> 0) F"
    by (simp only: LIM_zero_iff)
  have lt: "0.25 * sqrt 2 < (0.5::real)" using sqrt2_bounds(2) by simp
  have ev: "eventually (\<lambda>y. 0.25 * sqrt 2 < dist_to center y) F"
    by (rule order_tendstoD(1) [OF D lt])
  have "eventually (\<lambda>y. norm (Psi_eval center y - 1) \<le> norm (Psi_profile (dist_to center y) - 1) * 1) F"
    using ev by eventually_elim (simp add: Psi_eval_profile)
  then have "((\<lambda>y. Psi_eval center y - 1) \<longlongrightarrow> 0) F"
    by (rule tendsto_0_le [OF P])
  then show ?thesis by (simp only: LIM_zero_iff)
qed

lemma dist_to_tendsto_comap: "(dist_to center \<longlongrightarrow> r) (filtercomap (dist_to center) (nhds r))"
  by (rule filterlim_filtercomap)

text \<open>
  Claim C6. For every centre, as the distance \<open>d = \<parallel>y - center\<parallel>\<close> tends to
  \<open>0.25 \<surd>2\<close> the value of \<open>Psi\<close> tends to \<open>0\<close> and its gradient to \<open>(0, 0)\<close>, and as
  \<open>d\<close> tends to \<open>0.5\<close> the value tends to \<open>1\<close> and the gradient to \<open>(0, 0)\<close>. The
  filter \<open>filtercomap (dist_to center) (nhds r)\<close> holds the sets of points \<open>y\<close> whose
  distance lies in a neighbourhood of \<open>r\<close>, so the limits are taken from both sides of
  each radius: from the transition branch and from the constant branch it meets.
\<close>

theorem Psi_continuously_differentiable_at_radii:
  "(Psi_eval center \<longlongrightarrow> 0) (filtercomap (dist_to center) (nhds (0.25 * sqrt 2)))
   \<and> (Psi_grad center \<longlongrightarrow> (0, 0)) (filtercomap (dist_to center) (nhds (0.25 * sqrt 2)))
   \<and> (Psi_eval center \<longlongrightarrow> 1) (filtercomap (dist_to center) (nhds 0.5))
   \<and> (Psi_grad center \<longlongrightarrow> (0, 0)) (filtercomap (dist_to center) (nhds 0.5))"
proof (intro conjI)
  show "(Psi_eval center \<longlongrightarrow> 0) (filtercomap (dist_to center) (nhds (0.25 * sqrt 2)))"
    by (rule Psi_eval_tendsto_r1 [OF dist_to_tendsto_comap])
  show "(Psi_eval center \<longlongrightarrow> 1) (filtercomap (dist_to center) (nhds 0.5))"
    by (rule Psi_eval_tendsto_r2 [OF dist_to_tendsto_comap])
  show "(Psi_grad center \<longlongrightarrow> (0, 0)) (filtercomap (dist_to center) (nhds (0.25 * sqrt 2)))"
    using Psi_profile_d1_tendsto [OF dist_to_tendsto_comap [of center "0.25 * sqrt 2"]]
    by (intro Psi_grad_tendsto_zero) (simp only: Psi_profile_at_radii)
  show "(Psi_grad center \<longlongrightarrow> (0, 0)) (filtercomap (dist_to center) (nhds 0.5))"
    using Psi_profile_d1_tendsto [OF dist_to_tendsto_comap [of center "0.5"]]
    by (intro Psi_grad_tendsto_zero) (simp only: Psi_profile_at_radii)
qed

subsection \<open>Psi: the gradient and its divergence in the transition branch\<close>

text \<open>
  In the transition branch \<open>Psi_grad\<close> is the gradient of \<open>Psi_eval\<close> (lemmas
  \<open>Psi_eval_deriv_fst\<close> and \<open>Psi_eval_deriv_snd\<close>), and the sum of the partial
  derivatives of its two components, the Laplacian of \<open>Psi_eval\<close>, is
  \<open>f''(d) + f'(d) / d\<close> (lemma \<open>Psi_grad_divergence\<close>).
\<close>

lemma dist_to_pair:
  "dist_to (c1, c2) (t, s) = sqrt ((t - c1) * (t - c1) + (s - c2) * (s - c2))"
  by (simp add: dist_to_def vnorm_def squaredNorm_def vsub_def)

lemma dist_to_deriv_fst:
  assumes "0 < dist_to (c1, c2) (y1, y2)"
  shows "((\<lambda>t. dist_to (c1, c2) (t, y2)) has_real_derivative
            (y1 - c1) / dist_to (c1, c2) (y1, y2)) (at y1)"
proof -
  have pos: "0 < (y1 - c1) * (y1 - c1) + (y2 - c2) * (y2 - c2)"
    using assms unfolding dist_to_pair by simp
  show ?thesis
    unfolding dist_to_pair
    using pos by (auto intro!: derivative_eq_intros simp: field_simps)
qed


lemma dist_to_swap: "dist_to (c1, c2) (y1, y2) = dist_to (c2, c1) (y2, y1)"
  by (simp add: dist_to_pair add.commute)

lemma Psi_grad_swap: "snd (Psi_grad (c1, c2) (y1, y2)) = fst (Psi_grad (c2, c1) (y2, y1))"
  by (simp add: Psi_grad_components dist_to_swap [of c1 c2 y1 y2] vsub_def)

lemma Psi_grad_fst_deriv:
  assumes "0.25 * sqrt 2 < dist_to (c1, c2) (y1, y2)" and "dist_to (c1, c2) (y1, y2) < 0.5"
  shows "((\<lambda>t. fst (Psi_grad (c1, c2) (t, y2))) has_real_derivative
            Psi_profile_d2 (dist_to (c1, c2) (y1, y2)) * ((y1 - c1) / dist_to (c1, c2) (y1, y2))
              * ((y1 - c1) / dist_to (c1, c2) (y1, y2))
            + (1 * dist_to (c1, c2) (y1, y2)
                 - (y1 - c1) * ((y1 - c1) / dist_to (c1, c2) (y1, y2)))
              / (dist_to (c1, c2) (y1, y2) * dist_to (c1, c2) (y1, y2))
              * Psi_profile_d1 (dist_to (c1, c2) (y1, y2))) (at y1)"
proof -
  define D where "D = (\<lambda>t. dist_to (c1, c2) (t, y2))"
  define d where "d = dist_to (c1, c2) (y1, y2)"
  have Dy: "D y1 = d" by (simp add: D_def d_def)
  have dpos: "0 < d" using assms(1) sqrt2_quarter_pos unfolding d_def by linarith
  have dD: "(D has_real_derivative (y1 - c1) / d) (at y1)"
    unfolding D_def d_def by (rule dist_to_deriv_fst) (use dpos d_def in simp)
  have "isCont D y1" by (rule DERIV_isCont [OF dD])
  then have lim: "(D \<longlongrightarrow> D y1) (nhds y1)"
    by (simp add: isCont_def tendsto_at_iff_tendsto_nhds)
  have ev1: "eventually (\<lambda>t. 0.25 * sqrt 2 < D t) (nhds y1)"
    by (rule order_tendstoD(1) [OF lim]) (use assms(1) Dy d_def in simp)
  have ev2: "eventually (\<lambda>t. D t < 0.5) (nhds y1)"
    by (rule order_tendstoD(2) [OF lim]) (use assms(2) Dy d_def in simp)
  have ev: "eventually (\<lambda>t. fst (Psi_grad (c1, c2) (t, y2)) =
      Psi_profile_d1 (D t) * ((t - c1) / D t)) (nhds y1)"
    using ev1 ev2 by eventually_elim (simp add: Psi_grad_components D_def vsub_def)
  have 1: "((\<lambda>t. Psi_profile_d1 (D t)) has_real_derivative
      Psi_profile_d2 (D y1) * ((y1 - c1) / d)) (at y1)"
    by (rule DERIV_chain2 [OF Psi_profile_d1_deriv dD])
  have 0: "((\<lambda>t. t - c1) has_real_derivative 1) (at y1)"
    by (auto intro!: derivative_eq_intros)
  have 2: "((\<lambda>t. (t - c1) / D t) has_real_derivative
      (1 * D y1 - (y1 - c1) * ((y1 - c1) / d)) / (D y1 * D y1)) (at y1)"
    by (rule DERIV_divide [OF 0 dD]) (use dpos Dy in simp)
  have 3: "((\<lambda>t. Psi_profile_d1 (D t) * ((t - c1) / D t)) has_real_derivative
      Psi_profile_d2 (D y1) * ((y1 - c1) / d) * ((y1 - c1) / D y1)
      + (1 * D y1 - (y1 - c1) * ((y1 - c1) / d)) / (D y1 * D y1) * Psi_profile_d1 (D y1)) (at y1)"
    by (rule DERIV_mult [OF 1 2])
  have "((\<lambda>t. fst (Psi_grad (c1, c2) (t, y2))) has_real_derivative
      Psi_profile_d2 (D y1) * ((y1 - c1) / d) * ((y1 - c1) / D y1)
      + (1 * D y1 - (y1 - c1) * ((y1 - c1) / d)) / (D y1 * D y1) * Psi_profile_d1 (D y1)) (at y1)"
    using 3 by (subst DERIV_cong_ev [OF refl ev refl])
  then show ?thesis unfolding Dy d_def .
qed

lemma Psi_grad_snd_deriv:
  assumes "0.25 * sqrt 2 < dist_to (c1, c2) (y1, y2)" and "dist_to (c1, c2) (y1, y2) < 0.5"
  shows "((\<lambda>t. snd (Psi_grad (c1, c2) (y1, t))) has_real_derivative
            Psi_profile_d2 (dist_to (c1, c2) (y1, y2)) * ((y2 - c2) / dist_to (c1, c2) (y1, y2))
              * ((y2 - c2) / dist_to (c1, c2) (y1, y2))
            + (1 * dist_to (c1, c2) (y1, y2)
                 - (y2 - c2) * ((y2 - c2) / dist_to (c1, c2) (y1, y2)))
              / (dist_to (c1, c2) (y1, y2) * dist_to (c1, c2) (y1, y2))
              * Psi_profile_d1 (dist_to (c1, c2) (y1, y2))) (at y2)"
  using Psi_grad_fst_deriv [of c2 c1 y2 y1] assms
  unfolding Psi_grad_swap dist_to_swap [of c1 c2 y1 y2] by simp

lemma dist_to_squared:
  "dist_to (c1, c2) (y1, y2) * dist_to (c1, c2) (y1, y2)
     = (y1 - c1) * (y1 - c1) + (y2 - c2) * (y2 - c2)"
  by (simp add: dist_to_pair)

lemma radial_divergence_algebra:
  fixes a b d F1 F2 :: real
  assumes "0 < d" and "d * d = a * a + b * b"
  shows "F2 * (a / d) * (a / d) + (1 * d - a * (a / d)) / (d * d) * F1
       + (F2 * (b / d) * (b / d) + (1 * d - b * (b / d)) / (d * d) * F1)
       = F2 + F1 / d"
proof -
  have ne: "d \<noteq> 0" using assms(1) by simp
  have "F2 * (a / d) * (a / d) + F2 * (b / d) * (b / d) = F2 * ((a * a + b * b) / (d * d))"
    using ne by (simp add: field_simps)
  also have "\<dots> = F2" using ne by (simp add: assms(2) [symmetric])
  finally have r: "F2 * (a / d) * (a / d) + F2 * (b / d) * (b / d) = F2" .
  have "(1 * d - a * (a / d)) / (d * d) + (1 * d - b * (b / d)) / (d * d)
      = (2 * d - (a * a + b * b) / d) / (d * d)"
    using ne by (simp add: field_simps)
  also have "\<dots> = (2 * d - d) / (d * d)" using ne by (simp add: assms(2) [symmetric])
  also have "\<dots> = 1 / d" using ne by simp
  finally have t: "(1 * d - a * (a / d)) / (d * d) + (1 * d - b * (b / d)) / (d * d) = 1 / d" .
  have "F2 * (a / d) * (a / d) + (1 * d - a * (a / d)) / (d * d) * F1
       + (F2 * (b / d) * (b / d) + (1 * d - b * (b / d)) / (d * d) * F1)
     = (F2 * (a / d) * (a / d) + F2 * (b / d) * (b / d))
       + ((1 * d - a * (a / d)) / (d * d) + (1 * d - b * (b / d)) / (d * d)) * F1"
    by (simp only: distrib_right)
  then show ?thesis unfolding r t by simp
qed

lemma Psi_grad_divergence:
  assumes "0.25 * sqrt 2 < dist_to (c1, c2) (y1, y2)" and "dist_to (c1, c2) (y1, y2) < 0.5"
  shows "\<exists>A B. ((\<lambda>t. fst (Psi_grad (c1, c2) (t, y2))) has_real_derivative A) (at y1)
     \<and> ((\<lambda>t. snd (Psi_grad (c1, c2) (y1, t))) has_real_derivative B) (at y2)
     \<and> A + B = radial_laplacian (dist_to (c1, c2) (y1, y2))"
proof -
  have pos: "0 < dist_to (c1, c2) (y1, y2)"
    using assms(1) sqrt2_quarter_pos by linarith
  note A = Psi_grad_fst_deriv [OF assms] and B = Psi_grad_snd_deriv [OF assms]
  note C = radial_divergence_algebra [OF pos dist_to_squared,
      of "Psi_profile_d2 (dist_to (c1, c2) (y1, y2))" "Psi_profile_d1 (dist_to (c1, c2) (y1, y2))"]
  show ?thesis
    unfolding radial_laplacian_def
    by (rule exI, rule exI, intro conjI, rule A, rule B, rule C)
qed

lemma Psi_eval_deriv_fst:
  assumes "0.25 * sqrt 2 < dist_to (c1, c2) (y1, y2)" and "dist_to (c1, c2) (y1, y2) < 0.5"
  shows "((\<lambda>t. Psi_eval (c1, c2) (t, y2)) has_real_derivative fst (Psi_grad (c1, c2) (y1, y2)))
           (at y1)"
proof -
  define D where "D = (\<lambda>t. dist_to (c1, c2) (t, y2))"
  define d where "d = dist_to (c1, c2) (y1, y2)"
  have Dy: "D y1 = d" by (simp add: D_def d_def)
  have dpos: "0 < d" using assms(1) sqrt2_quarter_pos unfolding d_def by linarith
  have dD: "(D has_real_derivative (y1 - c1) / d) (at y1)"
    unfolding D_def d_def by (rule dist_to_deriv_fst) (use dpos d_def in simp)
  have "isCont D y1" by (rule DERIV_isCont [OF dD])
  then have lim: "(D \<longlongrightarrow> D y1) (nhds y1)"
    by (simp add: isCont_def tendsto_at_iff_tendsto_nhds)
  have ev1: "eventually (\<lambda>t. 0.25 * sqrt 2 < D t) (nhds y1)"
    by (rule order_tendstoD(1) [OF lim]) (use assms(1) Dy d_def in simp)
  have ev2: "eventually (\<lambda>t. D t < 0.5) (nhds y1)"
    by (rule order_tendstoD(2) [OF lim]) (use assms(2) Dy d_def in simp)
  have ev: "eventually (\<lambda>t. Psi_eval (c1, c2) (t, y2) = Psi_profile (D t)) (nhds y1)"
    using ev1 ev2 by eventually_elim (simp add: Psi_eval_profile D_def)
  have 1: "((\<lambda>t. Psi_profile (D t)) has_real_derivative
      Psi_profile_d1 (D y1) * ((y1 - c1) / d)) (at y1)"
    by (rule DERIV_chain2 [OF Psi_profile_deriv dD])
  have g: "fst (Psi_grad (c1, c2) (y1, y2)) = Psi_profile_d1 (D y1) * ((y1 - c1) / d)"
    using assms by (simp add: Psi_grad_components D_def d_def vsub_def)
  show ?thesis
    unfolding g using 1 by (subst DERIV_cong_ev [OF refl ev refl])
qed

lemma Psi_eval_deriv_snd:
  assumes "0.25 * sqrt 2 < dist_to (c1, c2) (y1, y2)" and "dist_to (c1, c2) (y1, y2) < 0.5"
  shows "((\<lambda>t. Psi_eval (c1, c2) (y1, t)) has_real_derivative snd (Psi_grad (c1, c2) (y1, y2)))
           (at y2)"
proof -
  have sw: "Psi_eval (c1, c2) (y1, t) = Psi_eval (c2, c1) (t, y1)" for t
    by (simp add: Psi_eval_profile dist_to_swap [of c1 c2 y1 t])
  show ?thesis
    using Psi_eval_deriv_fst [of c2 c1 y2 y1] assms
    unfolding sw Psi_grad_swap dist_to_swap [of c1 c2 y1 y2] by simp
qed

subsection \<open>SolveBVP\<close>

text \<open>
  Claim C8. When \<^verbatim>\<open>solver.info()\<close> is not \<^verbatim>\<open>Success\<close> after the factorisation, or is
  not \<^verbatim>\<open>Success\<close> after the solve, \<open>SolveBVP\<close> ends in the verification error of that
  check and returns no vector; a vector is returned only when both checks pass, and it
  is the one \<^verbatim>\<open>solver.solve\<close> produced.
\<close>

theorem SolveBVP_failure_is_fatal:
  "(solver_info lib (solver_compute lib (fst (SolveBVP_system lib fes u))) \<noteq> Success \<longrightarrow>
      SolveBVP lib fes u = Inl (VerifyFailed ''LU decomposition failed''))
   \<and> (solver_info lib (solver_compute lib (fst (SolveBVP_system lib fes u))) = Success
      \<and> solver_info lib (snd (solver_solve lib (solver_compute lib (fst (SolveBVP_system lib fes u)))
            (snd (SolveBVP_system lib fes u)))) \<noteq> Success \<longrightarrow>
      SolveBVP lib fes u = Inl (VerifyFailed ''Solving LSE failed''))
   \<and> (\<forall>x. SolveBVP lib fes u = Inr x \<longrightarrow>
      solver_info lib (solver_compute lib (fst (SolveBVP_system lib fes u))) = Success
      \<and> solver_info lib (snd (solver_solve lib (solver_compute lib (fst (SolveBVP_system lib fes u)))
            (snd (SolveBVP_system lib fes u)))) = Success
      \<and> x = fst (solver_solve lib (solver_compute lib (fst (SolveBVP_system lib fes u)))
            (snd (SolveBVP_system lib fes u))))"
  by (auto simp: SolveBVP_def Let_def split: prod.splits if_splits)

text \<open>
  Claim C7. For a library that keeps the promises above, a call of \<open>SolveBVP\<close> with the
  data \<open>u\<close> that returns a vector \<open>x\<close> has assembled the zero load vector (the source
  function is \<open>0\<close>), and \<open>x\<close> has one entry per global degree of freedom. On every edge
  that \<^verbatim>\<open>flagEntitiesOnBoundary\<close> flags, \<open>x\<close> has at the two degrees of freedom of the edge
  exactly the values of \<open>u\<close> at its two corners. At every degree of freedom that lies on
  no flagged edge nothing is prescribed: there \<open>x\<close> satisfies the equation of the
  assembled Laplace matrix with right-hand side \<open>0\<close>.
\<close>

theorem SolveBVP_Dirichlet_values:
  assumes "load_contract lib" and "fix_contract lib" and "solver_contract lib"
    and "init_contract lib fes (flagEntitiesOnBoundary (Mesh_of lib fes) 1) u"
    and "SolveBVP lib fes u = Inr x"
  shows "SolveBVP_load lib fes = replicate (NumDofs lib fes) 0
       \<and> length x = NumDofs lib fes
       \<and> (\<forall>e \<in> set (boundary_edges (Mesh_of lib fes)). \<forall>geo. Geometry e = Some geo \<longrightarrow>
             x ! (GlobalDofIndices lib fes e ! 0) = u (fst (Corners geo))
           \<and> x ! (GlobalDofIndices lib fes e ! 1) = u (snd (Corners geo)))
       \<and> (\<forall>i < NumDofs lib fes.
             (\<forall>e \<in> set (boundary_edges (Mesh_of lib fes)). i \<notin> set (GlobalDofIndices lib fes e))
             \<longrightarrow> times_vec lib (makeSparse lib (SolveBVP_matrix lib fes)) x ! i = 0)"
proof -
  let ?N = "NumDofs lib fes"
  let ?bd = "flagEntitiesOnBoundary (Mesh_of lib fes) 1"
  let ?ess = "SolveBVP_essential lib fes u"
  let ?sel = "\<lambda>gdof_idx. ?ess ! gdof_idx"
  let ?fix = "FixFlaggedSolutionCompAlt lib ?sel (SolveBVP_matrix lib fes) (SolveBVP_load lib fes)"
  let ?A = "makeSparse lib (fst ?fix)"
  let ?lu = "solver_compute lib ?A"
  have ess: "?ess = InitEssentialConditionFromFunction lib fes ?bd u"
    by (simp add: SolveBVP_essential_def)
  have load: "SolveBVP_load lib fes = replicate ?N 0"
    using assms(1) by (simp add: SolveBVP_load_def load_contract_def)
  have sys: "SolveBVP_system lib fes u = (?A, snd ?fix)"
    by (simp add: SolveBVP_system_def Let_def split: prod.splits)
  have ok: "solver_info lib ?lu = Success"
    "solver_info lib (snd (solver_solve lib ?lu (snd ?fix))) = Success"
    "x = fst (solver_solve lib ?lu (snd ?fix))"
    using assms(5) unfolding SolveBVP_def sys
    by (auto simp: Let_def split: prod.splits if_splits)
  have sol: "times_vec lib ?A x = snd ?fix" "length x = length (snd ?fix)"
    using assms(3) ok unfolding solver_contract_def by blast+
  have len: "length (snd ?fix) = ?N"
    using assms(2) load unfolding fix_contract_def by simp
  have lx: "length x = length (SolveBVP_load lib fes)"
    using sol(2) len load by simp
  have row: "if fst (?ess ! i) then x ! i = snd (?ess ! i)
      else times_vec lib (makeSparse lib (SolveBVP_matrix lib fes)) x ! i = SolveBVP_load lib fes ! i"
    if "i < ?N" for i
  proof -
    have "i < length (SolveBVP_load lib fes)" using that load by simp
    then show ?thesis
      using assms(2) lx sol(1) unfolding fix_contract_def by blast
  qed
  have bnd: "x ! (GlobalDofIndices lib fes e ! 0) = u (fst (Corners geo))
      \<and> x ! (GlobalDofIndices lib fes e ! 1) = u (snd (Corners geo))"
    if e: "e \<in> set (boundary_edges (Mesh_of lib fes))" and geo: "Geometry e = Some geo" for e geo
  proof -
    from e have "e \<in> set (filter ?bd (Entities (Mesh_of lib fes) 1))"
      by (simp add: boundary_edges_def)
    with assms(4) geo obtain d0 d1 where d: "GlobalDofIndices lib fes e = [d0, d1]"
      "d0 < ?N" "d1 < ?N"
      "?ess ! d0 = (True, u (fst (Corners geo)))" "?ess ! d1 = (True, u (snd (Corners geo)))"
      unfolding init_contract_def ess by blast
    from row [OF d(2)] d(4) have "x ! d0 = u (fst (Corners geo))" by simp
    moreover from row [OF d(3)] d(5) have "x ! d1 = u (snd (Corners geo))" by simp
    ultimately show ?thesis by (simp add: d(1))
  qed
  have int: "times_vec lib (makeSparse lib (SolveBVP_matrix lib fes)) x ! i = 0"
    if i: "i < ?N"
      and ni: "\<forall>e \<in> set (boundary_edges (Mesh_of lib fes)). i \<notin> set (GlobalDofIndices lib fes e)"
    for i
  proof -
    from ni have "\<forall>e \<in> set (filter ?bd (Entities (Mesh_of lib fes) 1)).
        i \<notin> set (GlobalDofIndices lib fes e)"
      by (simp add: boundary_edges_def)
    with assms(4) i have "\<not> fst (?ess ! i)"
      unfolding init_contract_def ess by blast
    with row [OF i] have "times_vec lib (makeSparse lib (SolveBVP_matrix lib fes)) x ! i
        = SolveBVP_load lib fes ! i" by simp
    then show ?thesis using i by (simp add: load)
  qed
  from load sol(2) len bnd int show ?thesis by simp
qed

subsection \<open>The small library keeps the promises\<close>

lemma fold_unchanged:
  assumes "\<And>z s. z \<in> set zs \<Longrightarrow> g z s = s"
  shows "fold g zs s = s"
  using assms by (induction zs arbitrary: s) simp_all

lemma small_library_load: "load_contract small_library"
proof -
  have "lib_AssembleVectorLocally fes (\<lambda>x. 0) phi = phi" for fes phi
    unfolding lib_AssembleVectorLocally_def
    by (intro fold_unchanged) (auto split: prod.splits)
  then show ?thesis by (simp add: load_contract_def small_library_def)
qed

lemma entry_append: "entry (xs @ ys) i j = entry xs i j + entry ys i j"
  by (simp add: entry_def)

lemma entry_emptied_row:
  "fst (sel i) \<Longrightarrow> entry (filter (\<lambda>t. \<not> fst (sel (fst t))) ts) i j = 0"
  by (induction ts) (auto simp: entry_def)

lemma entry_kept_row:
  "\<not> fst (sel i) \<Longrightarrow> entry (filter (\<lambda>t. \<not> fst (sel (fst t))) ts) i j = entry ts i j"
  by (induction ts) (auto simp: entry_def)

lemma entry_unit_diagonal:
  "distinct ks \<Longrightarrow>
   entry (map (\<lambda>k. (k, k, 1)) ks) i j = (if i = j \<and> i \<in> set ks then 1 else 0)"
  by (induction ks) (auto simp: entry_def)

lemma entry_above_diagonal:
  "list_all (\<lambda>t. fst (snd t) \<le> fst t \<or> snd (snd t) = 0) ts \<Longrightarrow> i < j \<Longrightarrow> entry ts i j = 0"
  by (induction ts) (auto simp: entry_def)

lemma sum_list_single:
  assumes "i < n" and "\<And>j. j \<noteq> i \<Longrightarrow> a j = (0::real)"
  shows "(\<Sum>j\<leftarrow>[0..<n]. a j * f j) = a i * f i"
proof -
  have "(\<Sum>j\<leftarrow>[0..<n]. a j * f j) = (\<Sum>j = 0..<n. a j * f j)"
    by (simp add: interv_sum_list_conv_sum_set_nat)
  also have "\<dots> = (\<Sum>j = 0..<n. if j = i then a i * f i else 0)"
    by (intro sum.cong) (auto simp: assms(2))
  also have "\<dots> = a i * f i"
    using assms(1) by simp
  finally show ?thesis .
qed

lemma lib_times_vec_nth:
  "i < length x \<Longrightarrow>
   lib_times_vec A x ! i = (\<Sum>j\<leftarrow>[0..<length x]. entry (snd A) i j * x ! j)"
  by (simp add: lib_times_vec_def)

lemma small_library_fix: "fix_contract small_library"
proof -
  have len: "length (snd (lib_FixFlaggedSolutionCompAlt sel A b)) = length b" for sel A b
    by (simp add: lib_FixFlaggedSolutionCompAlt_def)
  have val: "if fst (sel i) then x ! i = snd (sel i)
      else lib_times_vec (fst A, snd (snd A)) x ! i = b ! i"
    if i: "i < length b" and lx: "length x = length b"
      and eq: "lib_times_vec (fst (fst (lib_FixFlaggedSolutionCompAlt sel A b)),
                 snd (snd (fst (lib_FixFlaggedSolutionCompAlt sel A b)))) x
               = snd (lib_FixFlaggedSolutionCompAlt sel A b)"
    for sel A b x i
  proof -
    let ?ts = "snd (snd (fst (lib_FixFlaggedSolutionCompAlt sel A b)))"
    let ?A' = "(fst (fst (lib_FixFlaggedSolutionCompAlt sel A b)), ?ts)"
    have prod: "lib_times_vec ?A' x ! i = (\<Sum>j\<leftarrow>[0..<length x]. entry ?ts i j * x ! j)"
      using i lx by (simp add: lib_times_vec_nth)
    show ?thesis
    proof (cases "fst (sel i)")
      case True
      have row: "entry ?ts i j = (if j = i then 1 else 0)" for j
        using i True
        by (auto simp: lib_FixFlaggedSolutionCompAlt_def entry_append entry_emptied_row
            entry_unit_diagonal)
      have "(\<Sum>j\<leftarrow>[0..<length x]. entry ?ts i j * x ! j) = entry ?ts i i * x ! i"
        using i lx by (intro sum_list_single) (simp_all add: row)
      also have "\<dots> = x ! i" by (simp add: row)
      finally have "x ! i = snd (lib_FixFlaggedSolutionCompAlt sel A b) ! i"
        using eq prod by simp
      also have "\<dots> = snd (sel i)"
        using i True by (simp add: lib_FixFlaggedSolutionCompAlt_def)
      finally show ?thesis using True by simp
    next
      case False
      have row: "entry ?ts i j = entry (snd (snd A)) i j" for j
        using False
        by (auto simp: lib_FixFlaggedSolutionCompAlt_def entry_append entry_kept_row
            entry_unit_diagonal)
      have "lib_times_vec (fst A, snd (snd A)) x ! i
          = (\<Sum>j\<leftarrow>[0..<length x]. entry (snd (snd A)) i j * x ! j)"
        using i lx by (simp add: lib_times_vec_nth)
      also have "\<dots> = lib_times_vec ?A' x ! i"
        unfolding prod by (simp add: row)
      also have "\<dots> = snd (lib_FixFlaggedSolutionCompAlt sel A b) ! i"
        using eq by simp
      also have "\<dots> = b ! i"
        using i False by (simp add: lib_FixFlaggedSolutionCompAlt_def)
      finally show ?thesis using False by simp
    qed
  qed
  show ?thesis
    unfolding fix_contract_def
  proof (intro allI conjI impI)
    fix sel :: "nat \<Rightarrow> bool \<times> real" and A :: "nat \<times> nat \<times> triplets" and b :: "real list"
    show "length (snd (FixFlaggedSolutionCompAlt small_library sel A b)) = length b"
      using len by (simp add: small_library_def)
  next
    fix sel :: "nat \<Rightarrow> bool \<times> real" and A :: "nat \<times> nat \<times> triplets" and b x :: "real list"
      and i :: nat
    assume "i < length b \<and> length x = length b
      \<and> times_vec small_library
            (makeSparse small_library (fst (FixFlaggedSolutionCompAlt small_library sel A b))) x
          = snd (FixFlaggedSolutionCompAlt small_library sel A b)"
    then have "if fst (sel i) then x ! i = snd (sel i)
      else lib_times_vec (fst A, snd (snd A)) x ! i = b ! i"
      by (intro val [of i b x sel A]) (simp_all add: small_library_def)
    then show "if fst (sel i) then x ! i = snd (sel i)
      else times_vec small_library (makeSparse small_library A) x ! i = b ! i"
      by (simp add: small_library_def)
  qed
qed

lemma forward_substitution_length: "length (forward_substitution ts b k) = k"
  by (induction k) (simp_all add: Let_def)

lemma forward_substitution_nth:
  "i < k \<Longrightarrow>
   forward_substitution ts b k ! i =
     (b ! i - (\<Sum>j\<leftarrow>[0..<i]. entry ts i j * forward_substitution ts b i ! j)) / entry ts i i"
proof (induction k)
  case 0
  then show ?case by simp
next
  case (Suc k)
  show ?case
  proof (cases "i < k")
    case True
    then show ?thesis
      using Suc.IH by (simp add: Let_def nth_append forward_substitution_length)
  next
    case False
    with Suc.prems have "i = k" by simp
    then show ?thesis
      by (simp add: Let_def nth_append forward_substitution_length)
  qed
qed

lemma forward_substitution_prefix:
  assumes "j < i" and "i \<le> k"
  shows "forward_substitution ts b i ! j = forward_substitution ts b k ! j"
proof -
  from assms have "j < k" by simp
  then show ?thesis
    by (simp only: forward_substitution_nth [OF assms(1)] forward_substitution_nth [OF \<open>j < k\<close>])
qed

lemma forward_substitution_row:
  assumes i: "i < n" and nz: "entry ts i i \<noteq> 0"
    and up: "\<And>j. i < j \<Longrightarrow> entry ts i j = 0"
  shows "(\<Sum>j\<leftarrow>[0..<n]. entry ts i j * forward_substitution ts b n ! j) = b ! i"
proof -
  let ?x = "forward_substitution ts b n"
  let ?a = "entry ts i"
  have low: "(\<Sum>j\<leftarrow>[0..<i]. ?a j * forward_substitution ts b i ! j) = (\<Sum>j\<leftarrow>[0..<i]. ?a j * ?x ! j)"
    using i by (intro arg_cong [where f = sum_list] map_cong refl)
      (simp add: forward_substitution_prefix)
  have xi: "?a i * ?x ! i = b ! i - (\<Sum>j\<leftarrow>[0..<i]. ?a j * ?x ! j)"
    using nz by (simp add: forward_substitution_nth [OF i] low)
  have split: "[0..<n] = [0..<i] @ i # [Suc i..<n]"
    using i by (metis less_imp_le_nat upt_add_eq_append upt_conv_Cons le_add_diff_inverse zero_le plus_nat.add_0)
  have "(\<Sum>j\<leftarrow>[Suc i..<n]. ?a j * ?x ! j) = (\<Sum>j\<leftarrow>[Suc i..<n]. 0)"
    by (intro arg_cong [where f = sum_list] map_cong refl) (simp add: up)
  also have "\<dots> = 0" by simp
  finally have high: "(\<Sum>j\<leftarrow>[Suc i..<n]. ?a j * ?x ! j) = 0" .
  have "(\<Sum>j\<leftarrow>[0..<n]. ?a j * ?x ! j)
      = (\<Sum>j\<leftarrow>[0..<i]. ?a j * ?x ! j) + ?a i * ?x ! i + (\<Sum>j\<leftarrow>[Suc i..<n]. ?a j * ?x ! j)"
    by (subst split) simp
  then show ?thesis unfolding xi high by simp
qed

lemma small_library_solver: "solver_contract small_library"
proof -
  have "lib_times_vec A (fst (lib_solve (lib_compute A) b)) = b
      \<and> length (fst (lib_solve (lib_compute A) b)) = length b"
    if c: "fst (lib_compute A) = Success"
      and s: "fst (snd (lib_solve (lib_compute A) b)) = Success"
    for A b
  proof -
    let ?n = "fst A" and ?ts = "snd A"
    have up: "list_all (\<lambda>t. fst (snd t) \<le> fst t \<or> snd (snd t) = 0) ?ts"
      and nz: "list_all (\<lambda>i. entry ?ts i i \<noteq> 0) [0..<?n]"
      and lu: "lib_compute A = (Success, A)"
      using c by (auto simp: lib_compute_def split: if_splits)
    have lb: "length b = ?n"
      using s unfolding lu by (auto simp: lib_solve_def split: if_splits)
    define x where "x = forward_substitution ?ts b ?n"
    have sol: "fst (lib_solve (lib_compute A) b) = x"
      unfolding lu x_def using lb by (simp add: lib_solve_def)
    have lx: "length x = ?n" by (simp add: x_def forward_substitution_length)
    have "lib_times_vec A x ! i = b ! i" if i: "i < ?n" for i
    proof -
      have d: "entry ?ts i i \<noteq> 0" using nz i by (simp add: list_all_iff)
      have "lib_times_vec A x ! i = (\<Sum>j\<leftarrow>[0..<?n]. entry ?ts i j * x ! j)"
        using i lx by (simp add: lib_times_vec_nth)
      also have "\<dots> = b ! i"
        unfolding x_def
        by (rule forward_substitution_row [OF i d]) (rule entry_above_diagonal [OF up])
      finally show ?thesis .
    qed
    then have "lib_times_vec A x = b"
      using lx lb by (intro nth_equalityI) (simp_all add: lib_times_vec_def)
    then show ?thesis using sol lx lb by simp
  qed
  then show ?thesis
    by (simp add: solver_contract_def small_library_def)
qed

subsection \<open>SolveBVP on the four-triangle space\<close>

lemma upt_4: "[0..<4] = [0, 1, 2, 3]"
  by (simp add: upt_rec)

lemma upt_5: "[0..<5] = [0, 1, 2, 3, 4]"
  by (simp add: upt_rec)

lemma list_update_numeral:
  "(x # xs)[numeral k := y] = x # xs[pred_numeral k := y]"
  by (simp add: numeral_eq_Suc)

lemma nth_Cons_num: "(x # xs) ! numeral k = xs ! pred_numeral k"
  by (simp add: numeral_eq_Suc)

lemma replicate_numeral: "replicate (numeral k) x = x # replicate (pred_numeral k) x"
  by (simp add: numeral_eq_Suc)

lemma forward_substitution_numeral:
  "forward_substitution ts b (numeral k) =
     forward_substitution ts b (pred_numeral k)
       @ [(b ! pred_numeral k
            - (\<Sum>j\<leftarrow>[0..<pred_numeral k]. entry ts (pred_numeral k) j
                  * forward_substitution ts b (pred_numeral k) ! j))
          / entry ts (pred_numeral k) (pred_numeral k)]"
  by (simp add: numeral_eq_Suc Let_def)

lemma four_triangle_edges:
  "Entities four_triangle_mesh (Suc 0) =
     [square_edge 0 (0, 0) (1, 0) 1, square_edge 1 (1, 0) (1, 1) 1,
      square_edge 2 (1, 1) (0, 1) 1, square_edge 3 (0, 1) (0, 0) 1,
      square_edge 4 (0, 0) (1 / 2, 1 / 2) (sqrt 2 / 2),
      square_edge 5 (1, 0) (1 / 2, 1 / 2) (sqrt 2 / 2),
      square_edge 6 (1, 1) (1 / 2, 1 / 2) (sqrt 2 / 2),
      square_edge 7 (0, 1) (1 / 2, 1 / 2) (sqrt 2 / 2)]"
  by (simp add: four_triangle_mesh_def)

lemma four_triangle_flags:
  "flagEntitiesOnBoundary four_triangle_mesh (Suc 0) = (\<lambda>e. Index e < 4)"
  by (simp add: flagEntitiesOnBoundary_def four_triangle_mesh_def)

lemma four_triangle_boundary_edges:
  "boundary_edges four_triangle_mesh =
     [square_edge 0 (0, 0) (1, 0) 1, square_edge 1 (1, 0) (1, 1) 1,
      square_edge 2 (1, 1) (0, 1) 1, square_edge 3 (0, 1) (0, 0) 1]"
  by (simp add: boundary_edges_def four_triangle_edges four_triangle_flags square_edge_def)

lemma four_triangle_essential:
  "SolveBVP_essential small_library four_triangle_space fst =
     [(True, 0), (True, 1), (True, 1), (True, 0), (False, 0)]"
  by (simp add: SolveBVP_essential_def small_library_def four_triangle_space_def
      lib_InitEssentialConditionFromFunction_def four_triangle_edges four_triangle_flags
      square_edge_def four_triangle_edge_dofs_def list_update_numeral replicate_numeral
      nth_Cons_num)

lemma four_triangle_matrix:
  "SolveBVP_matrix small_library four_triangle_space =
     (5, 5, concat (map cell_triplets four_triangle_cells))"
  by (simp add: SolveBVP_matrix_def small_library_def four_triangle_space_def
      lib_AssembleMatrixLocally_def)

lemma four_triangle_load:
  "SolveBVP_load small_library four_triangle_space = [0, 0, 0, 0, 0]"
  using small_library_load
  by (simp add: SolveBVP_load_def load_contract_def small_library_def four_triangle_space_def
      replicate_numeral)

lemma four_triangle_system:
  "SolveBVP_system small_library four_triangle_space fst =
     ((5, [(4, 0, - 1 / 2), (4, 1, - 1 / 2), (4, 4, 1),
           (4, 1, - 1 / 2), (4, 2, - 1 / 2), (4, 4, 1),
           (4, 2, - 1 / 2), (4, 3, - 1 / 2), (4, 4, 1),
           (4, 3, - 1 / 2), (4, 0, - 1 / 2), (4, 4, 1),
           (0, 0, 1), (1, 1, 1), (2, 2, 1), (3, 3, 1)]), [0, 1, 1, 0, 0])"
  unfolding SolveBVP_system_def four_triangle_essential four_triangle_matrix four_triangle_load
  by (simp add: small_library_def lib_FixFlaggedSolutionCompAlt_def upt_5 nth_Cons_num
      four_triangle_cells_def cell_triplets_def)

lemma four_triangle_solution:
  "SolveBVP small_library four_triangle_space fst = Inr [0, 1, 1, 0, 1 / 2]"
  unfolding SolveBVP_def four_triangle_system
  by (simp add: small_library_def lib_compute_def lib_solve_def entry_def upt_rec nth_Cons_num
      forward_substitution_numeral nth_append)

lemma four_triangle_init:
  "init_contract small_library four_triangle_space
     (flagEntitiesOnBoundary (Mesh_of small_library four_triangle_space) 1) fst"
proof -
  have m: "Mesh_of small_library four_triangle_space = four_triangle_mesh"
    and n: "NumDofs small_library four_triangle_space = 5"
    and g: "GlobalDofIndices small_library four_triangle_space = four_triangle_edge_dofs"
    by (simp_all add: small_library_def four_triangle_space_def)
  have ess: "InitEssentialConditionFromFunction small_library four_triangle_space
      (flagEntitiesOnBoundary four_triangle_mesh 1) fst
      = [(True, 0), (True, 1), (True, 1), (True, 0), (False, 0)]"
    using four_triangle_essential by (simp add: SolveBVP_essential_def m)
  have es: "filter (flagEntitiesOnBoundary four_triangle_mesh 1) (Entities four_triangle_mesh 1)
      = [square_edge 0 (0, 0) (1, 0) 1, square_edge 1 (1, 0) (1, 1) 1,
         square_edge 2 (1, 1) (0, 1) 1, square_edge 3 (0, 1) (0, 0) 1]"
    using four_triangle_boundary_edges by (simp add: boundary_edges_def)
  have interior: "\<not> fst ([(True, 0), (True, 1), (True, 1), (True, 0), (False, 0 :: real)] ! i)"
    if "i < 5" and "i \<noteq> 0" and "i \<noteq> 1" and "i \<noteq> 2" and "i \<noteq> 3" for i
  proof -
    from that have "i = 4" by simp
    then show ?thesis by (simp add: nth_Cons_num)
  qed
  show ?thesis
    unfolding init_contract_def m n g ess es
    apply (intro conjI)
      apply simp
     apply (simp add: square_edge_def four_triangle_edge_dofs_def nth_Cons_num)
    apply (auto simp: square_edge_def four_triangle_edge_dofs_def intro: interior)
    done
qed

theorem SolveBVP_Dirichlet_values_witness:
  "SolveBVP small_library four_triangle_space fst = Inr [0, 1, 1, 0, 1 / 2]
   \<and> NumDofs small_library four_triangle_space = 5
   \<and> SolveBVP_load small_library four_triangle_space = replicate 5 0
   \<and> length [0, 1, 1, 0, 1 / 2 :: real] = 5
   \<and> GlobalDofIndices small_library four_triangle_space (square_edge 1 (1, 0) (1, 1) 1) = [1, 2]
   \<and> [0, 1, 1, 0, 1 / 2 :: real]
        ! (GlobalDofIndices small_library four_triangle_space (square_edge 1 (1, 0) (1, 1) 1) ! 0)
       = fst (1 :: real, 0 :: real)
   \<and> [0, 1, 1, 0, 1 / 2 :: real]
        ! (GlobalDofIndices small_library four_triangle_space (square_edge 1 (1, 0) (1, 1) 1) ! 1)
       = fst (1 :: real, 1 :: real)
   \<and> times_vec small_library
         (makeSparse small_library (SolveBVP_matrix small_library four_triangle_space))
         [0, 1, 1, 0, 1 / 2] ! 4 = 0"
proof -
  let ?x = "[0, 1, 1, 0, 1 / 2 :: real]"
  let ?e = "square_edge 1 (1, 0) (1, 1) 1"
  have m: "Mesh_of small_library four_triangle_space = four_triangle_mesh"
    and n: "NumDofs small_library four_triangle_space = 5"
    and g: "GlobalDofIndices small_library four_triangle_space = four_triangle_edge_dofs"
    by (simp_all add: small_library_def four_triangle_space_def)
  note main = SolveBVP_Dirichlet_values [OF small_library_load small_library_fix
      small_library_solver four_triangle_init four_triangle_solution]
  from main have l: "SolveBVP_load small_library four_triangle_space = replicate 5 0"
    unfolding n by (rule conjunct1)
  from main have b: "\<forall>e \<in> set (boundary_edges four_triangle_mesh). \<forall>geo. Geometry e = Some geo \<longrightarrow>
      ?x ! (four_triangle_edge_dofs e ! 0) = fst (fst (Corners geo))
      \<and> ?x ! (four_triangle_edge_dofs e ! 1) = fst (snd (Corners geo))"
    unfolding m n g by (elim conjE)
  have e: "?e \<in> set (boundary_edges four_triangle_mesh)"
    by (simp add: four_triangle_boundary_edges)
  have geo: "Geometry ?e = Some \<lparr>Corners = ((1, 0), (1, 1)), Volume = 1\<rparr>"
    by (simp add: square_edge_def)
  have v: "?x ! (four_triangle_edge_dofs ?e ! 0) = fst (1 :: real, 0 :: real)
      \<and> ?x ! (four_triangle_edge_dofs ?e ! 1) = fst (1 :: real, 1 :: real)"
    using b [THEN bspec, OF e, THEN spec, THEN mp, OF geo] by simp
  from main have i: "\<forall>i<5. (\<forall>e \<in> set (boundary_edges four_triangle_mesh).
        i \<notin> set (four_triangle_edge_dofs e))
      \<longrightarrow> times_vec small_library
            (makeSparse small_library (SolveBVP_matrix small_library four_triangle_space)) ?x ! i = 0"
    unfolding m n g by (elim conjE)
  have free: "\<forall>e \<in> set (boundary_edges four_triangle_mesh). 4 \<notin> set (four_triangle_edge_dofs e)"
    by (simp add: four_triangle_boundary_edges square_edge_def four_triangle_edge_dofs_def)
  have r: "times_vec small_library
      (makeSparse small_library (SolveBVP_matrix small_library four_triangle_space)) ?x ! 4 = 0"
    by (rule i [THEN spec, THEN mp, THEN mp, OF _ free]) simp
  have d: "four_triangle_edge_dofs ?e = [1, 2]"
    by (simp add: square_edge_def four_triangle_edge_dofs_def)
  from four_triangle_solution n l v r d show ?thesis
    unfolding g by simp
qed


subsection \<open>SolveBVP on the two-triangle space\<close>

lemma two_triangle_edges:
  "Entities two_triangle_mesh (Suc 0) =
     [square_edge 0 (0, 0) (1, 0) 1, square_edge 1 (1, 0) (1, 1) 1,
      square_edge 2 (1, 1) (0, 1) 1, square_edge 3 (0, 1) (0, 0) 1,
      square_edge 4 (0, 0) (1, 1) (sqrt 2)]"
  by (simp add: two_triangle_mesh_def)

lemma two_triangle_flags:
  "flagEntitiesOnBoundary two_triangle_mesh (Suc 0) = (\<lambda>e. Index e < 4)"
  by (simp add: flagEntitiesOnBoundary_def two_triangle_mesh_def)

lemma two_triangle_essential:
  "SolveBVP_essential small_library two_triangle_space fst =
     [(True, 0), (True, 1), (True, 1), (True, 0)]"
  by (simp add: SolveBVP_essential_def small_library_def two_triangle_space_def
      lib_InitEssentialConditionFromFunction_def two_triangle_edges two_triangle_flags
      square_edge_def two_triangle_edge_dofs_def list_update_numeral replicate_numeral
      nth_Cons_num)

lemma two_triangle_matrix:
  "SolveBVP_matrix small_library two_triangle_space =
     (4, 4, concat (map cell_triplets two_triangle_cells))"
  by (simp add: SolveBVP_matrix_def small_library_def two_triangle_space_def
      lib_AssembleMatrixLocally_def)

lemma two_triangle_triplet_rows:
  "list_all (\<lambda>t. fst t < 4) (concat (map cell_triplets two_triangle_cells))"
  by (simp add: two_triangle_cells_def cell_triplets_def)

lemma two_triangle_load:
  "SolveBVP_load small_library two_triangle_space = [0, 0, 0, 0]"
  using small_library_load
  by (simp add: SolveBVP_load_def load_contract_def small_library_def two_triangle_space_def
      replicate_numeral)

lemma filter_flagged_rows:
  assumes "list_all (\<lambda>t. fst t < n) ts" and "\<And>k. k < n \<Longrightarrow> fst (sel k)"
  shows "filter (\<lambda>t. \<not> fst (sel (fst t))) ts = []"
  using assms by (induction ts) auto

lemma two_triangle_system:
  "SolveBVP_system small_library two_triangle_space fst =
     ((4, [(0, 0, 1), (1, 1, 1), (2, 2, 1), (3, 3, 1)]), [0, 1, 1, 0])"
proof -
  let ?ess = "[(True, 0), (True, 1), (True, 1), (True, 0 :: real)]"
  have fl: "fst (?ess ! k)" if "k < 4" for k
  proof -
    from that have "k = 0 \<or> k = 1 \<or> k = 2 \<or> k = 3" by auto
    then show ?thesis by (auto simp: nth_Cons_num)
  qed
  have emp: "filter (\<lambda>t. \<not> fst (?ess ! fst t)) (concat (map cell_triplets two_triangle_cells)) = []"
    by (rule filter_flagged_rows [OF two_triangle_triplet_rows]) (rule fl)
  show ?thesis
    unfolding SolveBVP_system_def two_triangle_essential two_triangle_matrix two_triangle_load
    by (simp add: small_library_def lib_FixFlaggedSolutionCompAlt_def emp upt_4 nth_Cons_num)
qed

lemma two_triangle_solution:
  "SolveBVP small_library two_triangle_space fst = Inr [0, 1, 1, 0]"
  unfolding SolveBVP_def two_triangle_system
  by (simp add: small_library_def lib_compute_def lib_solve_def entry_def upt_rec nth_Cons_num
      forward_substitution_numeral nth_append)

lemma loose_dof_system:
  "SolveBVP_system small_library loose_dof_space fst =
     ((5, [(0, 0, 1), (1, 1, 1), (2, 2, 1), (3, 3, 1)]), [0, 1, 1, 0, 0])"
proof -
  let ?ess = "[(True, 0), (True, 1), (True, 1), (True, 0), (False, 0 :: real)]"
  have ess: "SolveBVP_essential small_library loose_dof_space fst = ?ess"
    by (simp add: SolveBVP_essential_def small_library_def two_triangle_space_def
      loose_dof_space_def lib_InitEssentialConditionFromFunction_def two_triangle_edges
      two_triangle_flags square_edge_def two_triangle_edge_dofs_def list_update_numeral
      replicate_numeral nth_Cons_num)
  have mat: "SolveBVP_matrix small_library loose_dof_space =
      (5, 5, concat (map cell_triplets two_triangle_cells))"
    by (simp add: SolveBVP_matrix_def small_library_def two_triangle_space_def
      loose_dof_space_def lib_AssembleMatrixLocally_def)
  have load: "SolveBVP_load small_library loose_dof_space = [0, 0, 0, 0, 0]"
    using small_library_load
    by (simp add: SolveBVP_load_def load_contract_def small_library_def two_triangle_space_def
      loose_dof_space_def replicate_numeral)
  have fl: "fst (?ess ! k)" if "k < 4" for k
  proof -
    from that have "k = 0 \<or> k = 1 \<or> k = 2 \<or> k = 3" by auto
    then show ?thesis by (auto simp: nth_Cons_num)
  qed
  have emp: "filter (\<lambda>t. \<not> fst (?ess ! fst t)) (concat (map cell_triplets two_triangle_cells)) = []"
    by (rule filter_flagged_rows [OF two_triangle_triplet_rows]) (rule fl)
  show ?thesis
    unfolding SolveBVP_system_def ess mat load
    by (simp add: small_library_def lib_FixFlaggedSolutionCompAlt_def emp upt_5 nth_Cons_num)
qed

lemma loose_dof_factorisation:
  "solver_info small_library
     (solver_compute small_library (fst (SolveBVP_system small_library loose_dof_space fst)))
   = NumericalIssue"
  unfolding loose_dof_system
  by (simp add: small_library_def lib_compute_def entry_def upt_5)

lemma failing_solve_system:
  "SolveBVP_system failing_solve_library fes u = SolveBVP_system small_library fes u"
  by (simp add: SolveBVP_system_def SolveBVP_essential_def SolveBVP_matrix_def SolveBVP_load_def
      failing_solve_library_def)

lemma two_triangle_factorisation:
  "solver_info small_library
     (solver_compute small_library (fst (SolveBVP_system small_library two_triangle_space fst)))
   = Success"
  unfolding two_triangle_system
  by (simp add: small_library_def lib_compute_def entry_def upt_4)

theorem SolveBVP_failure_is_fatal_witness:
  "SolveBVP small_library loose_dof_space fst = Inl (VerifyFailed ''LU decomposition failed'')
   \<and> SolveBVP failing_solve_library two_triangle_space fst =
       Inl (VerifyFailed ''Solving LSE failed'')
   \<and> SolveBVP small_library two_triangle_space fst = Inr [0, 1, 1, 0]
   \<and> [0, 1, 1, 0] = fst (solver_solve small_library
         (solver_compute small_library (fst (SolveBVP_system small_library two_triangle_space fst)))
         (snd (SolveBVP_system small_library two_triangle_space fst)))"
proof -
  have 1: "SolveBVP small_library loose_dof_space fst = Inl (VerifyFailed ''LU decomposition failed'')"
    by (rule SolveBVP_failure_is_fatal [of small_library loose_dof_space fst,
          THEN conjunct1, THEN mp])
      (simp add: loose_dof_factorisation)
  have c: "solver_info failing_solve_library
     (solver_compute failing_solve_library
        (fst (SolveBVP_system failing_solve_library two_triangle_space fst))) = Success"
    using two_triangle_factorisation
    by (simp add: failing_solve_system) (simp add: failing_solve_library_def)
  have s: "solver_info failing_solve_library
     (snd (solver_solve failing_solve_library
        (solver_compute failing_solve_library
           (fst (SolveBVP_system failing_solve_library two_triangle_space fst)))
        (snd (SolveBVP_system failing_solve_library two_triangle_space fst)))) \<noteq> Success"
    by (simp add: failing_solve_library_def small_library_def)
  have 2: "SolveBVP failing_solve_library two_triangle_space fst =
       Inl (VerifyFailed ''Solving LSE failed'')"
    by (rule SolveBVP_failure_is_fatal [of failing_solve_library two_triangle_space fst,
          THEN conjunct2, THEN conjunct1, THEN mp]) (intro conjI c s)
  have 3: "[0, 1, 1, 0] = fst (solver_solve small_library
         (solver_compute small_library (fst (SolveBVP_system small_library two_triangle_space fst)))
         (snd (SolveBVP_system small_library two_triangle_space fst)))"
    using SolveBVP_failure_is_fatal [of small_library two_triangle_space fst,
          THEN conjunct2, THEN conjunct2, THEN spec, THEN mp, OF two_triangle_solution]
    by (elim conjE)
  from 1 2 two_triangle_solution 3 show ?thesis by (intro conjI)
qed

end
